theory Spec2Isabelle
  imports Complex_Main "HOL-Library.Sublist"
begin

section \<open>Weather fetch, cache and parse pipeline (weather-analysis/src/data_fetcher.py)\<close>

text \<open>
  A shallow embedding of class \<open>UniversalWeatherFetcher\<close> and of the configuration it
  reads (weather-analysis/config/config.py).

  Conventions of the embedding.
  \<^item> A Python \<open>str\<close> is a \<open>string\<close> holding its UTF-8 encoding; the Chinese labels of the
    source are written byte by byte, with their code points in the comment beside them.
    The source only compares, concatenates and looks strings up, and UTF-8 encoding is
    injective and commutes with concatenation, so nothing depends on the encoding.
  \<^item> A Python number is an \<open>int\<close> or, for a \<open>float\<close>, the real number the float stands
    for; where the source computes a float, the model rounds to the nearest float. NaN and
    the infinities are outside the model.
  \<^item> An exception is a value \<open>Inl e\<close> of a sum type; a normal return is \<open>Inr v\<close>.
\<close>

subsection \<open>Labels of the source\<close>

definition s_severe_cold :: string where \<comment> \<open>U+4E25 U+5BD2\<close>
  "s_severe_cold = [CHR 0xE4, CHR 0xB8, CHR 0xA5, CHR 0xE5, CHR 0xAF, CHR 0x92]"

definition s_cold :: string where \<comment> \<open>U+5BD2 U+51B7\<close>
  "s_cold = [CHR 0xE5, CHR 0xAF, CHR 0x92, CHR 0xE5, CHR 0x86, CHR 0xB7]"

definition s_cool :: string where \<comment> \<open>U+51C9 U+723D\<close>
  "s_cool = [CHR 0xE5, CHR 0x87, CHR 0x89, CHR 0xE7, CHR 0x88, CHR 0xBD]"

definition s_comfortable :: string where \<comment> \<open>U+8212 U+9002\<close>
  "s_comfortable = [CHR 0xE8, CHR 0x88, CHR 0x92, CHR 0xE9, CHR 0x80, CHR 0x82]"

definition s_warm :: string where \<comment> \<open>U+6E29 U+6696\<close>
  "s_warm = [CHR 0xE6, CHR 0xB8, CHR 0xA9, CHR 0xE6, CHR 0x9A, CHR 0x96]"

definition s_hot :: string where \<comment> \<open>U+708E U+70ED\<close>
  "s_hot = [CHR 0xE7, CHR 0x82, CHR 0x8E, CHR 0xE7, CHR 0x83, CHR 0xAD]"

definition s_humid :: string where \<comment> \<open>U+6F6E U+6E7F\<close>
  "s_humid = [CHR 0xE6, CHR 0xBD, CHR 0xAE, CHR 0xE6, CHR 0xB9, CHR 0xBF]"

definition s_dry :: string where \<comment> \<open>U+5E72 U+71E5\<close>
  "s_dry = [CHR 0xE5, CHR 0xB9, CHR 0xB2, CHR 0xE7, CHR 0x87, CHR 0xA5]"

definition s_moderate :: string where \<comment> \<open>U+9002 U+4E2D\<close>
  "s_moderate = [CHR 0xE9, CHR 0x80, CHR 0x82, CHR 0xE4, CHR 0xB8, CHR 0xAD]"

definition s_strong_wind :: string where \<comment> \<open>U+5927 U+98CE\<close>
  "s_strong_wind = [CHR 0xE5, CHR 0xA4, CHR 0xA7, CHR 0xE9, CHR 0xA3, CHR 0x8E]"

definition s_breezy :: string where \<comment> \<open>U+6709 U+98CE\<close>
  "s_breezy = [CHR 0xE6, CHR 0x9C, CHR 0x89, CHR 0xE9, CHR 0xA3, CHR 0x8E]"

definition s_light_wind :: string where \<comment> \<open>U+5FAE U+98CE\<close>
  "s_light_wind = [CHR 0xE5, CHR 0xBE, CHR 0xAE, CHR 0xE9, CHR 0xA3, CHR 0x8E]"

definition s_very_comfortable :: string where \<comment> \<open>U+975E U+5E38 U+8212 U+9002\<close>
  "s_very_comfortable =
     [CHR 0xE9, CHR 0x9D, CHR 0x9E, CHR 0xE5, CHR 0xB8, CHR 0xB8,
      CHR 0xE8, CHR 0x88, CHR 0x92, CHR 0xE9, CHR 0x80, CHR 0x82]"

definition s_fairly_comfortable :: string where \<comment> \<open>U+8F83 U+4E3A U+8212 U+9002\<close>
  "s_fairly_comfortable =
     [CHR 0xE8, CHR 0xBE, CHR 0x83, CHR 0xE4, CHR 0xB8, CHR 0xBA,
      CHR 0xE8, CHR 0x88, CHR 0x92, CHR 0xE9, CHR 0x80, CHR 0x82]"

lemmas label_defs =
  s_severe_cold_def s_cold_def s_cool_def s_comfortable_def s_warm_def s_hot_def
  s_humid_def s_dry_def s_moderate_def s_strong_wind_def s_breezy_def s_light_wind_def
  s_very_comfortable_def s_fairly_comfortable_def

subsection \<open>calculate_comfort_index\<close>

text \<open>
  The three classifications of \<open>calculate_comfort_index\<close>, each an \<open>if/elif/else\<close>
  chain of the source, and the combination rule. The wind label is computed and not used,
  as in the source.
\<close>

definition temp_score :: "real \<Rightarrow> string" where
  "temp_score temp =
     (if temp < 0 then s_severe_cold
      else if temp < 10 then s_cold
      else if temp < 18 then s_cool
      else if temp < 26 then s_comfortable
      else if temp < 32 then s_warm
      else s_hot)"

definition humidity_adj :: "real \<Rightarrow> string" where
  "humidity_adj humidity =
     (if humidity > 85 then s_humid
      else if humidity < 30 then s_dry
      else s_moderate)"

definition wind_adj :: "real \<Rightarrow> string" where
  "wind_adj wind_speed =
     (if wind_speed > 10 then s_strong_wind
      else if wind_speed > 5 then s_breezy
      else s_light_wind)"

definition calculate_comfort_index :: "real \<Rightarrow> real \<Rightarrow> real \<Rightarrow> string" where
  "calculate_comfort_index temp humidity wind_speed =
     (let ts = temp_score temp;
          ha = humidity_adj humidity;
          wa = wind_adj wind_speed
      in if ts = s_comfortable \<and> ha = s_moderate then s_very_comfortable
         else if ts \<in> set [s_warm, s_cool] \<and> ha \<noteq> s_humid then s_fairly_comfortable
         else ts @ ha)"

text \<open>
  The rule table as the specification words it: three classifications into named bands,
  a label for each band, and the combination rule on the bands.
\<close>

datatype temp_band = SevereCold | Cold | Cool | Comfortable | Warm | Hot

datatype humidity_class = Dry | Moderate | Humid

datatype wind_class = Light | Breezy | Strong

definition temp_band_of :: "real \<Rightarrow> temp_band" where
  "temp_band_of t =
     (if t < 0 then SevereCold
      else if t < 10 then Cold
      else if t < 18 then Cool
      else if t < 26 then Comfortable
      else if t < 32 then Warm
      else Hot)"

definition humidity_class_of :: "real \<Rightarrow> humidity_class" where
  "humidity_class_of h = (if h < 30 then Dry else if h \<le> 85 then Moderate else Humid)"

definition wind_class_of :: "real \<Rightarrow> wind_class" where
  "wind_class_of v = (if v \<le> 5 then Light else if v \<le> 10 then Breezy else Strong)"

fun temp_label :: "temp_band \<Rightarrow> string" where
  "temp_label SevereCold = s_severe_cold"
| "temp_label Cold = s_cold"
| "temp_label Cool = s_cool"
| "temp_label Comfortable = s_comfortable"
| "temp_label Warm = s_warm"
| "temp_label Hot = s_hot"

fun humidity_label :: "humidity_class \<Rightarrow> string" where
  "humidity_label Dry = s_dry"
| "humidity_label Moderate = s_moderate"
| "humidity_label Humid = s_humid"

fun wind_label :: "wind_class \<Rightarrow> string" where
  "wind_label Light = s_light_wind"
| "wind_label Breezy = s_breezy"
| "wind_label Strong = s_strong_wind"

definition comfort_rating_spec :: "temp_band \<Rightarrow> humidity_class \<Rightarrow> string" where
  "comfort_rating_spec b c =
     (if b = Comfortable \<and> c = Moderate then s_very_comfortable
      else if (b = Warm \<or> b = Cool) \<and> c \<noteq> Humid then s_fairly_comfortable
      else temp_label b @ humidity_label c)"

subsection \<open>JSON values and the Python operations on them\<close>

text \<open>
  What \<open>response.json()\<close> and \<open>json.load\<close> return: \<open>JNull\<close> is Python's \<open>None\<close>, a
  \<open>JDict\<close> lists its items in insertion order. The exceptions the source can raise are
  the constructors of \<open>error\<close>.
\<close>

datatype json =
    JNull
  | JBool bool
  | JInt int
  | JFloat real
  | JStr string
  | JList "json list"
  | JDict "(string \<times> json) list"

datatype error =
    KeyError
  | IndexError
  | TypeError
  | AttributeError
  | OverflowError
  | JSONDecodeError

type_synonym 'a result = "error + 'a"

definition bind :: "'a result \<Rightarrow> ('a \<Rightarrow> 'b result) \<Rightarrow> 'b result" where
  "bind r f = (case r of Inl e \<Rightarrow> Inl e | Inr v \<Rightarrow> f v)"

text \<open>Truth value testing (\<open>if data:\<close>, \<open>x or y\<close>).\<close>

fun truthy :: "json \<Rightarrow> bool" where
  "truthy JNull = False"
| "truthy (JBool b) = b"
| "truthy (JInt i) = (i \<noteq> 0)"
| "truthy (JFloat x) = (x \<noteq> 0)"
| "truthy (JStr s) = (s \<noteq> [])"
| "truthy (JList xs) = (xs \<noteq> [])"
| "truthy (JDict kvs) = (kvs \<noteq> [])"

text \<open>\<open>obj[key]\<close> with a string key: only a dict has string subscripts.\<close>

fun subscript :: "json \<Rightarrow> string \<Rightarrow> json result" where
  "subscript (JDict kvs) k = (case map_of kvs k of None \<Rightarrow> Inl KeyError | Some v \<Rightarrow> Inr v)"
| "subscript _ k = Inl TypeError"

text \<open>
  \<open>obj[0]\<close>: the first element of a list, the first character of a string (the first
  code point, one to four bytes of the encoding); a dict of the JSON decoder has string
  keys only, so the key 0 is absent.
\<close>

definition utf8_width :: "char \<Rightarrow> nat" where
  "utf8_width c =
     (if (of_char c :: nat) < 0x80 then 1
      else if (of_char c :: nat) < 0xE0 then 2
      else if (of_char c :: nat) < 0xF0 then 3
      else 4)"

fun subscript0 :: "json \<Rightarrow> json result" where
  "subscript0 (JList xs) = (case xs of [] \<Rightarrow> Inl IndexError | x # _ \<Rightarrow> Inr x)"
| "subscript0 (JStr s) =
     (case s of [] \<Rightarrow> Inl IndexError | c # _ \<Rightarrow> Inr (JStr (take (utf8_width c) s)))"
| "subscript0 (JDict kvs) = Inl KeyError"
| "subscript0 _ = Inl TypeError"

text \<open>\<open>obj.get(key, default)\<close>: a method of dicts only.\<close>

fun dict_get :: "json \<Rightarrow> string \<Rightarrow> json \<Rightarrow> json result" where
  "dict_get (JDict kvs) k d = (case map_of kvs k of None \<Rightarrow> Inr d | Some v \<Rightarrow> Inr v)"
| "dict_get _ k d = Inl AttributeError"

text \<open>
  A value used as a number (in a comparison with a number): \<open>bool\<close> is a subclass of
  \<open>int\<close>, every other type raises.
\<close>

fun number_of :: "json \<Rightarrow> real result" where
  "number_of (JInt i) = Inr (of_int i)"
| "number_of (JFloat x) = Inr x"
| "number_of (JBool b) = Inr (if b then 1 else 0)"
| "number_of _ = Inl TypeError"

text \<open>
  Rounding to an integer, a tie to the even one.
\<close>

definition round_half_even :: "real \<Rightarrow> int" where
  "round_half_even x =
     (let f = \<lfloor>x\<rfloor>; d = x - of_int f
      in if d < 1 / 2 then f
         else if d > 1 / 2 then f + 1
         else if even f then f else f + 1)"

text \<open>
  The float nearest to a real number, a tie to the even mantissa (IEEE 754 binary64, the
  \<open>float\<close> of Python): \<open>binade y\<close> is the exponent \<open>e\<close> with \<open>2 ^ e \<le> \<bar>y\<bar> < 2 ^ (e + 1)\<close>,
  found by halving or doubling; the floats of that binade are the multiples of
  \<open>2 ^ (e - 52)\<close>, and below \<open>2 ^ - 1022\<close> the multiples of \<open>2 ^ - 1074\<close>. A result beyond
  the largest float is outside the model.
\<close>

function exponent_up :: "real \<Rightarrow> int" where
  "exponent_up y = (if y < 2 then 0 else exponent_up (y / 2) + 1)"
  by pat_completeness auto
termination
proof (relation "measure (\<lambda>y. nat \<lfloor>y\<rfloor>)")
  fix y :: real
  assume "\<not> y < 2"
  then have "\<lfloor>y / 2\<rfloor> < \<lfloor>y\<rfloor>" "0 < \<lfloor>y\<rfloor>" by linarith+
  then show "(y / 2, y) \<in> measure (\<lambda>y. nat \<lfloor>y\<rfloor>)" by simp
qed simp

function exponent_down :: "real \<Rightarrow> int" where
  "exponent_down y = (if y \<le> 0 \<or> 1 \<le> y then 0 else exponent_down (y * 2) - 1)"
  by pat_completeness auto
termination
proof (relation "measure (\<lambda>y. nat \<lfloor>1 / y\<rfloor>)")
  fix y :: real
  assume a: "\<not> (y \<le> 0 \<or> 1 \<le> y)"
  define z where "z = 1 / y"
  from a have z: "1 < z" by (simp add: z_def)
  have h: "of_int \<lfloor>z / 2\<rfloor> \<le> z / 2" by (rule of_int_floor_le)
  have "of_int (\<lfloor>z / 2\<rfloor> + 1) \<le> z"
  proof (cases "z < 2")
    case True
    with z have "\<lfloor>z / 2\<rfloor> = 0" by (intro floor_unique) simp_all
    with z show ?thesis by simp
  next
    case False
    with h show ?thesis by simp
  qed
  then have "\<lfloor>z / 2\<rfloor> + 1 \<le> \<lfloor>z\<rfloor>" by (simp only: le_floor_iff)
  moreover have "0 \<le> \<lfloor>z / 2\<rfloor>" using z by (simp add: zero_le_floor)
  moreover have "\<And>a b :: int. a + 1 \<le> b \<Longrightarrow> 0 \<le> a \<Longrightarrow> nat a < nat b" by simp
  ultimately have "nat \<lfloor>z / 2\<rfloor> < nat \<lfloor>z\<rfloor>" by blast
  moreover have "1 / (y * 2) = z / 2" "1 / y = z" by (simp_all add: z_def)
  ultimately show "(y * 2, y) \<in> measure (\<lambda>y. nat \<lfloor>1 / y\<rfloor>)"
    by (simp only: in_measure)
qed simp

declare exponent_up.simps [simp del] exponent_down.simps [simp del]

definition binade :: "real \<Rightarrow> int" where
  "binade y = (if 1 \<le> \<bar>y\<bar> then exponent_up \<bar>y\<bar> else exponent_down \<bar>y\<bar>)"

definition pow2 :: "int \<Rightarrow> real" where
  "pow2 e = (if 0 \<le> e then 2 ^ nat e else 1 / 2 ^ nat (- e))"

definition nearest_double :: "real \<Rightarrow> real" where
  "nearest_double y =
     (let ulp = pow2 (max (binade y) (- 1022) - 52)
      in of_int (round_half_even (y / ulp)) * ulp)"

text \<open>
  \<open>round(x, 1)\<close>. On a float it rounds the exact value to the nearest multiple of one
  tenth, a tie to the even one, and returns the float nearest to that decimal number; on
  an int (and a bool) it returns the int.
\<close>

fun round1 :: "json \<Rightarrow> json result" where
  "round1 (JFloat x) =
     Inr (JFloat (nearest_double (of_int (round_half_even (x * 10)) / 10)))"
| "round1 (JInt i) = Inr (JInt i)"
| "round1 (JBool b) = Inr (JInt (if b then 1 else 0))"
| "round1 _ = Inl TypeError"

subsection \<open>Dates and times\<close>

text \<open>
  A naive \<open>datetime\<close> object, with the fields Python gives it. The difference of two of
  them is computed as \<open>datetime.__sub__\<close> does, from the proleptic Gregorian ordinals
  of the dates (\<open>_ymd2ord\<close> of the standard library); a \<open>timedelta\<close> is its number of
  microseconds.
\<close>

record datetime =
  year :: nat
  month :: nat
  day :: nat
  hour :: nat
  minute :: nat
  second :: nat
  microsecond :: nat

definition is_leap :: "nat \<Rightarrow> bool" where
  "is_leap y = (y mod 4 = 0 \<and> (y mod 100 \<noteq> 0 \<or> y mod 400 = 0))"

definition days_before_year :: "nat \<Rightarrow> int" where
  "days_before_year y =
     (let z = int y - 1 in z * 365 + z div 4 - z div 100 + z div 400)"

definition DAYS_IN_MONTH :: "int list" where
  "DAYS_IN_MONTH = [- 1, 31, 28, 31, 30, 31, 30, 31, 31, 30, 31, 30, 31]"

definition DAYS_BEFORE_MONTH :: "int list" where
  "DAYS_BEFORE_MONTH = [- 1, 0, 31, 59, 90, 120, 151, 181, 212, 243, 273, 304, 334]"

definition days_before_month :: "nat \<Rightarrow> nat \<Rightarrow> int" where
  "days_before_month y m =
     DAYS_BEFORE_MONTH ! m + (if m > 2 \<and> is_leap y then 1 else 0)"

definition ymd2ord :: "nat \<Rightarrow> nat \<Rightarrow> nat \<Rightarrow> int" where
  "ymd2ord y m d = days_before_year y + days_before_month y m + int d"

definition dt_micros :: "datetime \<Rightarrow> int" where
  "dt_micros t =
     ((ymd2ord (year t) (month t) (day t) * 86400
        + (int (second t) + int (minute t) * 60 + int (hour t) * 3600)) * 1000000)
      + int (microsecond t)"

definition datetime_sub :: "datetime \<Rightarrow> datetime \<Rightarrow> int" where
  "datetime_sub a b = dt_micros a - dt_micros b"

definition timedelta_hours :: "int \<Rightarrow> int" where
  "timedelta_hours h = h * 3600 * 1000000"

text \<open>
  The fields of a datetime object are in range (the constructor of the library refuses
  anything else).
\<close>

definition valid_datetime :: "datetime \<Rightarrow> bool" where
  "valid_datetime t =
     (1 \<le> year t \<and> year t \<le> 9999 \<and> 1 \<le> month t \<and> month t \<le> 12
      \<and> 1 \<le> day t \<and> int (day t) \<le> DAYS_IN_MONTH ! month t
             + (if month t = 2 \<and> is_leap (year t) then 1 else 0)
      \<and> hour t < 24 \<and> minute t < 60 \<and> second t < 60 \<and> microsecond t < 1000000)"

text \<open>
  \<open>strftime\<close> for the three formats of the source. \<open>%m\<close>, \<open>%d\<close>, \<open>%H\<close>, \<open>%M\<close> and
  \<open>%S\<close> are two decimal digits, \<open>%Y\<close> is the year in four digits (every year a clock
  or a weather report gives has four).
\<close>

definition digit_char :: "nat \<Rightarrow> char" where
  "digit_char n = ''0123456789'' ! (n mod 10)"

fun decimal :: "nat \<Rightarrow> string" where
  "decimal n = (if n < 10 then [digit_char n] else decimal (n div 10) @ [digit_char n])"

declare decimal.simps [simp del]

definition zero_pad :: "nat \<Rightarrow> nat \<Rightarrow> string" where
  "zero_pad w n = replicate (w - length (decimal n)) (CHR ''0'') @ decimal n"

definition strftime_Ymd :: "datetime \<Rightarrow> string" where \<comment> \<open>\<open>'%Y%m%d'\<close>\<close>
  "strftime_Ymd t = zero_pad 4 (year t) @ zero_pad 2 (month t) @ zero_pad 2 (day t)"

definition strftime_HMS :: "datetime \<Rightarrow> string" where \<comment> \<open>\<open>'%H:%M:%S'\<close>\<close>
  "strftime_HMS t =
     zero_pad 2 (hour t) @ '':'' @ zero_pad 2 (minute t) @ '':'' @ zero_pad 2 (second t)"

definition strftime_Ymd_HMS :: "datetime \<Rightarrow> string" where \<comment> \<open>\<open>'%Y-%m-%d %H:%M:%S'\<close>\<close>
  "strftime_Ymd_HMS t =
     zero_pad 4 (year t) @ ''-'' @ zero_pad 2 (month t) @ ''-'' @ zero_pad 2 (day t)
       @ '' '' @ strftime_HMS t"

subsection \<open>The platform\<close>

text \<open>
  What the source takes from the standard library and the operating system and this
  repository does not define: the MD5 digest in hexadecimal (\<open>hashlib\<close>) and the local
  time of a POSIX timestamp (the time zone database; \<open>None\<close> where the library raises
  because the timestamp is out of range).
\<close>

record platform =
  md5_hexdigest :: "string \<Rightarrow> string"
  localtime :: "int \<Rightarrow> datetime option"

text \<open>
  \<open>datetime.fromtimestamp(v)\<close>: an int or a float timestamp, any other type raises. A
  float is split into its integral part (towards zero) and its fraction; the fraction
  times one million, a float, is rounded to an integer, a tie to even.
\<close>

definition trunc :: "real \<Rightarrow> int" where
  "trunc x = (if 0 \<le> x then \<lfloor>x\<rfloor> else \<lceil>x\<rceil>)"

definition fromtimestamp_micros :: "platform \<Rightarrow> int \<Rightarrow> datetime result" where
  "fromtimestamp_micros plat us =
     (case localtime plat (us div 1000000) of
        None \<Rightarrow> Inl OverflowError
      | Some t \<Rightarrow> Inr (t\<lparr>microsecond := nat (us mod 1000000)\<rparr>))"

fun fromtimestamp :: "platform \<Rightarrow> json \<Rightarrow> datetime result" where
  "fromtimestamp plat (JInt i) = fromtimestamp_micros plat (i * 1000000)"
| "fromtimestamp plat (JBool b) = fromtimestamp_micros plat (if b then 1000000 else 0)"
| "fromtimestamp plat (JFloat x) =
     fromtimestamp_micros plat
       (trunc x * 1000000
        + round_half_even (nearest_double ((x - of_int (trunc x)) * 1000000)))"
| "fromtimestamp plat _ = Inl TypeError"

text \<open>
  A platform to run the model on: a time zone at a fixed offset from UTC (in seconds),
  with the calendar of the library (\<open>_ord2ymd\<close>), and the MD5 digests of the key
  strings the examples below use (any other string gets a string of zeros).
\<close>

definition ord2ymd :: "int \<Rightarrow> nat \<times> nat \<times> nat" where
  "ord2ymd n0 =
     (let n = n0 - 1;
          n400 = n div 146097; n = n mod 146097;
          n100 = n div 36524; n = n mod 36524;
          n4 = n div 1461; n = n mod 1461;
          n1 = n div 365; n = n mod 365;
          y = n400 * 400 + 1 + n100 * 100 + n4 * 4 + n1
      in if n1 = 4 \<or> n100 = 4 then (nat (y - 1), 12, 31)
         else
           let leapyear = (n1 = 3 \<and> (n4 \<noteq> 24 \<or> n100 = 3));
               m = nat ((n + 50) div 32);
               preceding = DAYS_BEFORE_MONTH ! m + (if m > 2 \<and> leapyear then 1 else 0)
           in if preceding > n
              then let m' = m - 1;
                       preceding' = preceding
                         - (DAYS_IN_MONTH ! m' + (if m' = 2 \<and> leapyear then 1 else 0))
                   in (nat y, m', nat (n - preceding' + 1))
              else (nat y, m, nat (n - preceding + 1)))"

definition fixed_offset_localtime :: "int \<Rightarrow> int \<Rightarrow> datetime option" where
  "fixed_offset_localtime off ts =
     (let t = ts + off; ordinal = 719163 + t div 86400; s = nat (t mod 86400)
      in if ordinal < 1 \<or> ordinal > 3652059 then None
         else case ord2ymd ordinal of (y, m, d) \<Rightarrow>
           Some \<lparr>year = y, month = m, day = d, hour = s div 3600,
                  minute = s mod 3600 div 60, second = s mod 60, microsecond = 0\<rparr>)"

definition md5_table :: "(string \<times> string) list" where
  "md5_table =
     [(''Guilin_current_20240101'', ''e363ca4eafe1c710f4745a8a402b0566''),
      (''Guilin_current_20240102'', ''d5b020122a968385af98263a5b8ebc52''),
      (''Guilin_forecast_forecast_20240101'', ''326a22688fc426be1ca6077edfd339ac''),
      (''Beijing_current_20240101'', ''b011737362854c39b7f5257a55aff802''),
      (''Atlantis_current_20240101'', ''660e944ec1147676d54b9114e0f97e7b''),
      (''Shanghai_current_20240101'', ''be2733a91fc797c078270c9e8aee56fa'')]"

definition example_platform :: platform where
  "example_platform =
     \<lparr>md5_hexdigest = (\<lambda>s. case map_of md5_table s of
                              None \<Rightarrow> replicate 32 (CHR ''0'')
                            | Some h \<Rightarrow> h),
      localtime = fixed_offset_localtime 28800\<rparr>"

subsection \<open>Configuration (config.py)\<close>

text \<open>
  The fields of \<open>WeatherConfig\<close> the fetcher reads; their values come from the
  environment. \<open>API_KEY\<close> is \<open>None\<close> when the variable is not set.
\<close>

record config =
  CITY :: string
  COUNTRY :: string
  LAT :: real
  LON :: real
  API_KEY :: "string option"
  USE_CACHE :: bool
  CACHE_HOURS :: int
  FORECAST_DAYS :: int
  LANGUAGE :: string

text \<open>
  The table of \<open>_load_weather_mappings\<close>, in the order of the source. The values are
  the UTF-8 encodings of
  Clear: U+6674 U+6717;
  Clouds: U+591A U+4E91;
  Rain: U+964D U+96E8;
  Snow: U+964D U+96EA;
  Thunderstorm: U+96F7 U+66B4;
  Drizzle: U+6BDB U+6BDB U+96E8;
  Mist: U+8584 U+96FE;
  Fog: U+96FE;
  Haze: U+973E;
  Dust: U+6C99 U+5C18;
  Smoke: U+70DF U+96FE;
  Ash: U+706B U+5C71 U+7070;
  Squall: U+98D1;
  Tornado: U+9F99 U+5377 U+98CE.
\<close>

definition WEATHER_MAP :: "(string \<times> string) list" where
  "WEATHER_MAP =
     [(''Clear'', [CHR 0xE6, CHR 0x99, CHR 0xB4, CHR 0xE6, CHR 0x9C, CHR 0x97]),
      (''Clouds'', [CHR 0xE5, CHR 0xA4, CHR 0x9A, CHR 0xE4, CHR 0xBA, CHR 0x91]),
      (''Rain'', [CHR 0xE9, CHR 0x99, CHR 0x8D, CHR 0xE9, CHR 0x9B, CHR 0xA8]),
      (''Snow'', [CHR 0xE9, CHR 0x99, CHR 0x8D, CHR 0xE9, CHR 0x9B, CHR 0xAA]),
      (''Thunderstorm'', [CHR 0xE9, CHR 0x9B, CHR 0xB7, CHR 0xE6, CHR 0x9A, CHR 0xB4]),
      (''Drizzle'', [CHR 0xE6, CHR 0xAF, CHR 0x9B, CHR 0xE6, CHR 0xAF, CHR 0x9B, CHR 0xE9, CHR 0x9B, CHR 0xA8]),
      (''Mist'', [CHR 0xE8, CHR 0x96, CHR 0x84, CHR 0xE9, CHR 0x9B, CHR 0xBE]),
      (''Fog'', [CHR 0xE9, CHR 0x9B, CHR 0xBE]),
      (''Haze'', [CHR 0xE9, CHR 0x9C, CHR 0xBE]),
      (''Dust'', [CHR 0xE6, CHR 0xB2, CHR 0x99, CHR 0xE5, CHR 0xB0, CHR 0x98]),
      (''Smoke'', [CHR 0xE7, CHR 0x83, CHR 0x9F, CHR 0xE9, CHR 0x9B, CHR 0xBE]),
      (''Ash'', [CHR 0xE7, CHR 0x81, CHR 0xAB, CHR 0xE5, CHR 0xB1, CHR 0xB1, CHR 0xE7, CHR 0x81, CHR 0xB0]),
      (''Squall'', [CHR 0xE9, CHR 0xA3, CHR 0x91]),
      (''Tornado'', [CHR 0xE9, CHR 0xBE, CHR 0x99, CHR 0xE5, CHR 0x8D, CHR 0xB7, CHR 0xE9, CHR 0xA3, CHR 0x8E])]"

subsection \<open>parse_weather_data\<close>

definition s_unknown_city :: string where \<comment> \<open>U+672A U+77E5 U+57CE U+5E02\<close>
  "s_unknown_city =
     [CHR 0xE6, CHR 0x9C, CHR 0xAA, CHR 0xE7, CHR 0x9F, CHR 0xA5,
      CHR 0xE5, CHR 0x9F, CHR 0x8E, CHR 0xE5, CHR 0xB8, CHR 0x82]"

definition s_unknown :: string where \<comment> \<open>U+672A U+77E5\<close>
  "s_unknown = [CHR 0xE6, CHR 0x9C, CHR 0xAA, CHR 0xE7, CHR 0x9F, CHR 0xA5]"

definition s_no_data :: string where \<comment> \<open>U+65E0 U+6570 U+636E\<close>
  "s_no_data =
     [CHR 0xE6, CHR 0x97, CHR 0xA0, CHR 0xE6, CHR 0x95, CHR 0xB0, CHR 0xE6, CHR 0x8D, CHR 0xAE]"

text \<open>
  The dict \<open>parse_weather_data\<close> builds, one field for each key, in the order of the
  dict display. A field the source copies from the payload is a JSON value.
\<close>

record parsed =
  p_city :: json            \<comment> \<open>U+57CE U+5E02\<close>
  p_actual_city :: json     \<comment> \<open>U+5B9E U+9645 U+57CE U+5E02 U+540D\<close>
  p_country :: json         \<comment> \<open>U+56FD U+5BB6\<close>
  p_updated :: string       \<comment> \<open>U+66F4 U+65B0 U+65F6 U+95F4\<close>
  p_condition :: json       \<comment> \<open>U+5929 U+6C14 U+72B6 U+51B5\<close>
  p_description :: json     \<comment> \<open>U+8BE6 U+7EC6 U+63CF U+8FF0\<close>
  p_temp :: json            \<comment> \<open>U+5F53 U+524D U+6E29 U+5EA6 (U+2103)\<close>
  p_feels_like :: json      \<comment> \<open>U+4F53 U+611F U+6E29 U+5EA6 (U+2103)\<close>
  p_temp_max :: json        \<comment> \<open>U+6700 U+9AD8 U+6E29 U+5EA6 (U+2103)\<close>
  p_temp_min :: json        \<comment> \<open>U+6700 U+4F4E U+6E29 U+5EA6 (U+2103)\<close>
  p_humidity :: json        \<comment> \<open>U+6E7F U+5EA6 (%)\<close>
  p_pressure :: json        \<comment> \<open>U+6C14 U+538B (hPa)\<close>
  p_wind_speed :: json      \<comment> \<open>U+98CE U+901F (m/s)\<close>
  p_wind_deg :: json        \<comment> \<open>U+98CE U+5411 (U+00B0)\<close>
  p_clouds :: json          \<comment> \<open>U+4E91 U+91CF (%)\<close>
  p_visibility :: json      \<comment> \<open>U+80FD U+89C1 U+5EA6 (m)\<close>
  p_sunrise :: string       \<comment> \<open>U+65E5 U+51FA U+65F6 U+95F4\<close>
  p_sunset :: string        \<comment> \<open>U+65E5 U+843D U+65F6 U+95F4\<close>
  p_tz_offset :: json       \<comment> \<open>U+65F6 U+533A U+504F U+79FB\<close>
  p_source :: string        \<comment> \<open>U+6570 U+636E U+6765 U+6E90\<close>
  p_comfort :: string       \<comment> \<open>U+8212 U+9002 U+5EA6 U+8BC4 U+7EA7\<close>

text \<open>\<open>data[k1][k2]\<close> and \<open>data['weather'][0][k]\<close>.\<close>

definition item2 :: "json \<Rightarrow> string \<Rightarrow> string \<Rightarrow> json result" where
  "item2 data k1 k2 = bind (subscript data k1) (\<lambda>x. subscript x k2)"

definition weather_item :: "json \<Rightarrow> string \<Rightarrow> json result" where
  "weather_item data k =
     bind (subscript data ''weather'') (\<lambda>w. bind (subscript0 w) (\<lambda>w0. subscript w0 k))"

text \<open>
  \<open>config.WEATHER_MAP.get(weather_en, weather_en)\<close>: a list or a dict is not hashable;
  the keys of the table are strings, so any other value is absent from it.
\<close>

fun weather_map_get :: "json \<Rightarrow> json result" where
  "weather_map_get (JStr s) =
     Inr (case map_of WEATHER_MAP s of None \<Rightarrow> JStr s | Some z \<Rightarrow> JStr z)"
| "weather_map_get (JList xs) = Inl TypeError"
| "weather_map_get (JDict kvs) = Inl TypeError"
| "weather_map_get v = Inr v"

text \<open>
  \<open>calculate_comfort_index\<close> as \<open>parse_weather_data\<close> calls it, on values of any type:
  the comparisons of the temperature come first, then those of the humidity, then those
  of the wind speed, and each raises on a value that is not a number.
\<close>

definition calculate_comfort_index_json :: "json \<Rightarrow> json \<Rightarrow> json \<Rightarrow> string result" where
  "calculate_comfort_index_json temp humidity wind_speed =
     bind (number_of temp) (\<lambda>t.
     bind (number_of humidity) (\<lambda>h.
     bind (number_of wind_speed) (\<lambda>v.
     Inr (calculate_comfort_index t h v))))"

definition parse_weather_data :: "platform \<Rightarrow> json \<Rightarrow> string option \<Rightarrow> parsed option result" where
  "parse_weather_data plat data city_display_name =
     (if \<not> truthy data then Inr None
      else
        bind (case city_display_name of
                None \<Rightarrow> dict_get data ''name'' (JStr s_unknown_city)
              | Some n \<Rightarrow> if n \<noteq> [] then Inr (JStr n)
                          else dict_get data ''name'' (JStr s_unknown_city)) (\<lambda>display_name.
        bind (weather_item data ''main'') (\<lambda>weather_en.
        bind (weather_map_get weather_en) (\<lambda>weather_zh.
        bind (dict_get data ''name'' (JStr s_unknown)) (\<lambda>actual_city.
        bind (item2 data ''sys'' ''country'') (\<lambda>country.
        bind (subscript data ''dt'') (\<lambda>dt.
        bind (fromtimestamp plat dt) (\<lambda>updated.
        bind (weather_item data ''description'') (\<lambda>description.
        bind (bind (item2 data ''main'' ''temp'') round1) (\<lambda>temp.
        bind (bind (item2 data ''main'' ''feels_like'') round1) (\<lambda>feels_like.
        bind (bind (item2 data ''main'' ''temp_max'') round1) (\<lambda>temp_max.
        bind (bind (item2 data ''main'' ''temp_min'') round1) (\<lambda>temp_min.
        bind (item2 data ''main'' ''humidity'') (\<lambda>humidity.
        bind (item2 data ''main'' ''pressure'') (\<lambda>pressure.
        bind (item2 data ''wind'' ''speed'') (\<lambda>wind_speed.
        bind (bind (subscript data ''wind'') (\<lambda>w. dict_get w ''deg'' (JStr s_no_data))) (\<lambda>wind_deg.
        bind (item2 data ''clouds'' ''all'') (\<lambda>clouds.
        bind (dict_get data ''visibility'' (JStr s_no_data)) (\<lambda>visibility.
        bind (bind (item2 data ''sys'' ''sunrise'') (fromtimestamp plat)) (\<lambda>sunrise.
        bind (bind (item2 data ''sys'' ''sunset'') (fromtimestamp plat)) (\<lambda>sunset.
        bind (subscript data ''timezone'') (\<lambda>tz.
        bind (calculate_comfort_index_json temp humidity wind_speed) (\<lambda>comfort.
        Inr (Some
          \<lparr>p_city = display_name,
           p_actual_city = actual_city,
           p_country = country,
           p_updated = strftime_Ymd_HMS updated,
           p_condition = weather_zh,
           p_description = description,
           p_temp = temp,
           p_feels_like = feels_like,
           p_temp_max = temp_max,
           p_temp_min = temp_min,
           p_humidity = humidity,
           p_pressure = pressure,
           p_wind_speed = wind_speed,
           p_wind_deg = wind_deg,
           p_clouds = clouds,
           p_visibility = visibility,
           p_sunrise = strftime_HMS sunrise,
           p_sunset = strftime_HMS sunset,
           p_tz_offset = tz,
           p_source = ''OpenWeatherMap'',
           p_comfort = comfort\<rparr>))))))))))))))))))))))))"

subsection \<open>The world of the fetcher: cache directory, clock, network, output\<close>

text \<open>
  A request as \<open>session.get\<close> receives it, and what comes back: a response with its
  status code and its body (\<open>None\<close> when \<open>response.json()\<close> raises on it), or an
  exception of the \<open>requests\<close> library (timeout, DNS failure, connection reset).
\<close>

datatype param = PStr string | PInt int | PFloat real | PNone

record request =
  url :: string
  params :: "(string \<times> param) list"
  timeout :: nat

datatype http_result = Response int "json option" | RequestException

text \<open>
  The lines the fetcher prints, one constructor for each \<open>print\<close> of the source with
  the values it interpolates, and the events of a run in the order they happen.
\<close>

datatype notice =
    UsingCache string
  | FetchingCurrent string
  | FetchSucceeded string
  | CityNotFound string string
  | RequestFailed int
  | NetworkError
  | FetchingForecast string int
  | ForecastFailed int
  | FetchingCoordinates real real
  | CoordinatesFailed int
  | ComparingCity "string option"

datatype event = Sent request | Printed notice | Slept

text \<open>
  A file of the cache directory: its modification time, as \<open>datetime.fromtimestamp\<close>
  reads it, and the JSON document it holds (\<open>None\<close> when \<open>json.load\<close> raises on its
  bytes). The world: the files of the cache directory by name, the wall clock and the
  network as the environment gives them (the clock after a number of events, the answer
  to a request after a number of earlier requests), and the events so far. Writing and
  reading a file succeed.
\<close>

record cache_file =
  mtime :: datetime
  content :: "json option"

record world =
  files :: "string \<rightharpoonup> cache_file"
  clock :: "nat \<Rightarrow> datetime"
  network :: "nat \<Rightarrow> request \<Rightarrow> http_result"
  trace :: "event list"

definition now :: "world \<Rightarrow> datetime" where \<comment> \<open>\<open>datetime.now()\<close>\<close>
  "now w = clock w (length (trace w))"

fun is_sent :: "event \<Rightarrow> bool" where
  "is_sent (Sent r) = True"
| "is_sent _ = False"

definition requests_sent :: "world \<Rightarrow> request list" where
  "requests_sent w = [r. Sent r \<leftarrow> trace w]"

definition print :: "notice \<Rightarrow> world \<Rightarrow> world" where
  "print n w = w\<lparr>trace := trace w @ [Printed n]\<rparr>"

definition next_answer :: "world \<Rightarrow> request \<Rightarrow> http_result" where
  "next_answer w req = network w (length (requests_sent w)) req"

definition session_get :: "request \<Rightarrow> world \<Rightarrow> http_result \<times> world" where
  "session_get req w = (next_answer w req, w\<lparr>trace := trace w @ [Sent req]\<rparr>)"

definition sleep :: "world \<Rightarrow> world" where \<comment> \<open>\<open>time.sleep(1.1)\<close>\<close>
  "sleep w = w\<lparr>trace := trace w @ [Slept]\<rparr>"

subsection \<open>The cache\<close>

definition base_url :: string where
  "base_url = ''https://api.openweathermap.org/data/2.5''"

definition cache_key_string :: "datetime \<Rightarrow> string \<Rightarrow> string \<Rightarrow> string" where
  "cache_key_string t city endpoint = city @ ''_'' @ endpoint @ ''_'' @ strftime_Ymd t"

definition get_cache_key :: "platform \<Rightarrow> world \<Rightarrow> string \<Rightarrow> string \<Rightarrow> string" where
  "get_cache_key plat w city endpoint =
     take 8 (md5_hexdigest plat (cache_key_string (now w) city endpoint))"

definition cache_file_name :: "string \<Rightarrow> string \<Rightarrow> string" where
  "cache_file_name cache_key endpoint = cache_key @ ''_'' @ endpoint @ ''.json''"

definition load_from_cache :: "config \<Rightarrow> string \<Rightarrow> string \<Rightarrow> world \<Rightarrow> json result \<times> world" where
  "load_from_cache cfg cache_key endpoint w =
     (if \<not> USE_CACHE cfg then (Inr JNull, w)
      else
        case files w (cache_file_name cache_key endpoint) of
          None \<Rightarrow> (Inr JNull, w)
        | Some f \<Rightarrow>
            if datetime_sub (now w) (mtime f) < timedelta_hours (CACHE_HOURS cfg)
            then (case content f of
                    None \<Rightarrow> (Inl JSONDecodeError, print (UsingCache cache_key) w)
                  | Some j \<Rightarrow> (Inr j, print (UsingCache cache_key) w))
            else (Inr JNull, w))"

text \<open>
  The lookup gives nothing to return: the cache is disabled, or the file is absent, or it
  is not younger than \<open>CACHE_HOURS\<close>, or its content is falsy.
\<close>

definition cache_gives_nothing :: "config \<Rightarrow> string \<Rightarrow> string \<Rightarrow> world \<Rightarrow> bool" where
  "cache_gives_nothing cfg cache_key endpoint w =
     (\<not> USE_CACHE cfg
      \<or> (case files w (cache_file_name cache_key endpoint) of
            None \<Rightarrow> True
          | Some f \<Rightarrow>
              \<not> datetime_sub (now w) (mtime f) < timedelta_hours (CACHE_HOURS cfg)
              \<or> (case content f of None \<Rightarrow> False | Some j \<Rightarrow> \<not> truthy j)))"

definition save_to_cache :: "string \<Rightarrow> string \<Rightarrow> json \<Rightarrow> world \<Rightarrow> world" where
  "save_to_cache cache_key endpoint data w =
     w\<lparr>files := (files w)(cache_file_name cache_key endpoint \<mapsto>
          \<lparr>mtime = now w, content = Some data\<rparr>)\<rparr>"

subsection \<open>The three fetch operations\<close>

text \<open>\<open>x or default\<close> on an optional argument: \<open>None\<close>, an empty string and a zero are false.\<close>

definition str_or :: "string option \<Rightarrow> string \<Rightarrow> string" where
  "str_or x d = (case x of None \<Rightarrow> d | Some s \<Rightarrow> if s \<noteq> [] then s else d)"

definition int_or :: "int option \<Rightarrow> int \<Rightarrow> int" where
  "int_or x d = (case x of None \<Rightarrow> d | Some i \<Rightarrow> if i \<noteq> 0 then i else d)"

definition float_or :: "real option \<Rightarrow> real \<Rightarrow> real" where
  "float_or x d = (case x of None \<Rightarrow> d | Some r \<Rightarrow> if r \<noteq> 0 then r else d)"

definition appid :: "config \<Rightarrow> param" where \<comment> \<open>\<open>self.api_key\<close>\<close>
  "appid cfg = (case API_KEY cfg of None \<Rightarrow> PNone | Some k \<Rightarrow> PStr k)"

definition current_request :: "config \<Rightarrow> string \<Rightarrow> string \<Rightarrow> request" where
  "current_request cfg target_city target_country =
     \<lparr>url = base_url @ ''/weather'',
      params = [(''q'', PStr (target_city @ '','' @ target_country)),
                (''appid'', appid cfg),
                (''units'', PStr ''metric''),
                (''lang'', PStr (LANGUAGE cfg))],
      timeout = 10\<rparr>"

text \<open>
  The \<open>try\<close> block of \<open>get_current_weather\<close>: the request, and what the source does
  with each answer. \<open>except Exception\<close> catches what the request, the decoding of the
  body and the cache write raise.
\<close>

definition fetch_current ::
  "config \<Rightarrow> string \<Rightarrow> string \<Rightarrow> string \<Rightarrow> world \<Rightarrow> json result \<times> world" where
  "fetch_current cfg target_city target_country cache_key w =
     (case session_get (current_request cfg target_city target_country)
             (print (FetchingCurrent target_city) w) of
        (RequestException, w2) \<Rightarrow> (Inr JNull, print NetworkError w2)
      | (Response status_code body, w2) \<Rightarrow>
          if status_code = 200 then
            (case body of
               None \<Rightarrow> (Inr JNull, print NetworkError w2)
             | Some data \<Rightarrow>
                 (Inr data,
                  print (FetchSucceeded target_city)
                    (save_to_cache cache_key ''current'' data w2)))
          else if status_code = 404 then
            (Inr JNull, print (CityNotFound target_city target_country) w2)
          else (Inr JNull, print (RequestFailed status_code) w2))"

definition get_current_weather ::
  "config \<Rightarrow> platform \<Rightarrow> string option \<Rightarrow> string option \<Rightarrow> world \<Rightarrow> json result \<times> world" where
  "get_current_weather cfg plat city country w =
     (let target_city = str_or city (CITY cfg);
          target_country = str_or country (COUNTRY cfg);
          cache_key = get_cache_key plat w target_city ''current''
      in case load_from_cache cfg cache_key ''current'' w of
           (Inl e, w1) \<Rightarrow> (Inl e, w1)
         | (Inr cached_data, w1) \<Rightarrow>
             if truthy cached_data then (Inr cached_data, w1)
             else fetch_current cfg target_city target_country cache_key w1)"

definition forecast_request :: "config \<Rightarrow> string \<Rightarrow> string \<Rightarrow> int \<Rightarrow> request" where
  "forecast_request cfg target_city target_country target_days =
     \<lparr>url = base_url @ ''/forecast'',
      params = [(''q'', PStr (target_city @ '','' @ target_country)),
                (''appid'', appid cfg),
                (''units'', PStr ''metric''),
                (''lang'', PStr (LANGUAGE cfg)),
                (''cnt'', PInt (target_days * 8))],
      timeout = 15\<rparr>"

definition fetch_forecast ::
  "config \<Rightarrow> string \<Rightarrow> string \<Rightarrow> int \<Rightarrow> string \<Rightarrow> world \<Rightarrow> json result \<times> world" where
  "fetch_forecast cfg target_city target_country target_days cache_key w =
     (case session_get (forecast_request cfg target_city target_country target_days)
             (print (FetchingForecast target_city target_days) w) of
        (RequestException, w2) \<Rightarrow> (Inr JNull, print NetworkError w2)
      | (Response status_code body, w2) \<Rightarrow>
          if status_code = 200 then
            (case body of
               None \<Rightarrow> (Inr JNull, print NetworkError w2)
             | Some data \<Rightarrow> (Inr data, save_to_cache cache_key ''forecast'' data w2))
          else (Inr JNull, print (ForecastFailed status_code) w2))"

definition get_forecast ::
  "config \<Rightarrow> platform \<Rightarrow> string option \<Rightarrow> string option \<Rightarrow> int option \<Rightarrow> world
     \<Rightarrow> json result \<times> world" where
  "get_forecast cfg plat city country days w =
     (let target_city = str_or city (CITY cfg);
          target_country = str_or country (COUNTRY cfg);
          target_days = int_or days (FORECAST_DAYS cfg);
          cache_key = get_cache_key plat w (target_city @ ''_forecast'') ''forecast''
      in case load_from_cache cfg cache_key ''forecast'' w of
           (Inl e, w1) \<Rightarrow> (Inl e, w1)
         | (Inr cached_data, w1) \<Rightarrow>
             if truthy cached_data then (Inr cached_data, w1)
             else fetch_forecast cfg target_city target_country target_days cache_key w1)"

definition coordinates_request :: "config \<Rightarrow> real \<Rightarrow> real \<Rightarrow> request" where
  "coordinates_request cfg target_lat target_lon =
     \<lparr>url = base_url @ ''/weather'',
      params = [(''lat'', PFloat target_lat),
                (''lon'', PFloat target_lon),
                (''appid'', appid cfg),
                (''units'', PStr ''metric''),
                (''lang'', PStr (LANGUAGE cfg))],
      timeout = 10\<rparr>"

definition get_weather_by_coordinates ::
  "config \<Rightarrow> real option \<Rightarrow> real option \<Rightarrow> world \<Rightarrow> json result \<times> world" where
  "get_weather_by_coordinates cfg lat lon w =
     (let target_lat = float_or lat (LAT cfg);
          target_lon = float_or lon (LON cfg)
      in case session_get (coordinates_request cfg target_lat target_lon)
                (print (FetchingCoordinates target_lat target_lon) w) of
           (RequestException, w2) \<Rightarrow> (Inr JNull, print NetworkError w2)
         | (Response status_code body, w2) \<Rightarrow>
             if status_code = 200 then
               (case body of
                  None \<Rightarrow> (Inr JNull, print NetworkError w2)
                | Some data \<Rightarrow> (Inr data, w2))
             else (Inr JNull, print (CoordinatesFailed status_code) w2))"

subsection \<open>compare_cities\<close>

text \<open>
  An entry of the input list is a dict from strings to strings or \<open>None\<close>; a row of the
  result holds the seven columns of the data frame, in the order of the source.
\<close>

type_synonym city_info = "(string \<times> string option) list"

record row =
  r_city :: json          \<comment> \<open>U+57CE U+5E02\<close>
  r_temp :: json          \<comment> \<open>U+6E29 U+5EA6 (U+2103)\<close>
  r_feels_like :: json    \<comment> \<open>U+4F53 U+611F U+6E29 U+5EA6 (U+2103)\<close>
  r_condition :: json     \<comment> \<open>U+5929 U+6C14 U+72B6 U+51B5\<close>
  r_humidity :: json      \<comment> \<open>U+6E7F U+5EA6 (%)\<close>
  r_wind_speed :: json    \<comment> \<open>U+98CE U+901F (m/s)\<close>
  r_comfort :: string     \<comment> \<open>U+8212 U+9002 U+5EA6\<close>

definition row_of :: "parsed \<Rightarrow> row" where
  "row_of p =
     \<lparr>r_city = p_city p,
      r_temp = p_temp p,
      r_feels_like = p_feels_like p,
      r_condition = p_condition p,
      r_humidity = p_humidity p,
      r_wind_speed = p_wind_speed p,
      r_comfort = p_comfort p\<rparr>"

definition info_city :: "city_info \<Rightarrow> string option" where \<comment> \<open>\<open>city_info.get('city')\<close>\<close>
  "info_city ci = (case map_of ci ''city'' of None \<Rightarrow> None | Some v \<Rightarrow> v)"

definition info_country :: "city_info \<Rightarrow> string option" where
  "info_country ci = (case map_of ci ''country'' of None \<Rightarrow> Some ''CN'' | Some v \<Rightarrow> v)"

definition info_display_name :: "city_info \<Rightarrow> string option" where
  "info_display_name ci =
     (case map_of ci ''display_name'' of None \<Rightarrow> info_city ci | Some v \<Rightarrow> v)"

text \<open>
  The loop of \<open>compare_cities\<close>, with the list \<open>comparisons\<close> as accumulator. An
  exception leaves the loop; nothing in \<open>compare_cities\<close> catches it.
\<close>

fun compare_loop ::
  "config \<Rightarrow> platform \<Rightarrow> city_info list \<Rightarrow> row list \<Rightarrow> world \<Rightarrow> row list result \<times> world" where
  "compare_loop cfg plat [] comparisons w = (Inr comparisons, w)"
| "compare_loop cfg plat (city_info # rest) comparisons w =
     (case get_current_weather cfg plat (info_city city_info) (info_country city_info)
             (print (ComparingCity (info_city city_info)) w) of
        (Inl e, w1) \<Rightarrow> (Inl e, w1)
      | (Inr data, w1) \<Rightarrow>
          if truthy data then
            (case parse_weather_data plat data (info_display_name city_info) of
               Inl e \<Rightarrow> (Inl e, w1)
             | Inr None \<Rightarrow> compare_loop cfg plat rest comparisons (sleep w1)
             | Inr (Some p) \<Rightarrow>
                 compare_loop cfg plat rest (comparisons @ [row_of p]) (sleep w1))
          else compare_loop cfg plat rest comparisons (sleep w1))"

definition compare_cities ::
  "config \<Rightarrow> platform \<Rightarrow> city_info list \<Rightarrow> world \<Rightarrow> row list result \<times> world" where
  "compare_cities cfg plat cities w = compare_loop cfg plat cities [] w"

subsection \<open>What the specification says of a parsed payload\<close>

text \<open>
  A well-formed payload has the fields of the provider's schema that the fetcher
  consumes without a default: the condition keyword and the description of the first
  weather entry are strings, the temperatures, the humidity, the pressure, the wind
  speed, the cloud cover and the time zone offset are numbers, the country is a string,
  and \<open>dt\<close>, sunrise and sunset are integer timestamps that the platform turns into a
  local time.
\<close>

fun is_number :: "json \<Rightarrow> bool" where
  "is_number (JInt i) = True"
| "is_number (JFloat x) = True"
| "is_number _ = False"

fun is_string :: "json \<Rightarrow> bool" where
  "is_string (JStr s) = True"
| "is_string _ = False"

fun is_timestamp :: "platform \<Rightarrow> json \<Rightarrow> bool" where
  "is_timestamp plat (JInt i) =
     (case localtime plat i of None \<Rightarrow> False | Some t \<Rightarrow> valid_datetime t)"
| "is_timestamp plat _ = False"

definition has :: "(json \<Rightarrow> bool) \<Rightarrow> json result \<Rightarrow> bool" where
  "has P r = (case r of Inl e \<Rightarrow> False | Inr v \<Rightarrow> P v)"

definition well_formed_payload :: "platform \<Rightarrow> json \<Rightarrow> bool" where
  "well_formed_payload plat data =
     (has is_string (weather_item data ''main'')
      \<and> has is_string (weather_item data ''description'')
      \<and> has is_number (item2 data ''main'' ''temp'')
      \<and> has is_number (item2 data ''main'' ''feels_like'')
      \<and> has is_number (item2 data ''main'' ''temp_max'')
      \<and> has is_number (item2 data ''main'' ''temp_min'')
      \<and> has is_number (item2 data ''main'' ''humidity'')
      \<and> has is_number (item2 data ''main'' ''pressure'')
      \<and> has is_number (item2 data ''wind'' ''speed'')
      \<and> has is_number (item2 data ''clouds'' ''all'')
      \<and> has is_string (item2 data ''sys'' ''country'')
      \<and> has (is_timestamp plat) (item2 data ''sys'' ''sunrise'')
      \<and> has (is_timestamp plat) (item2 data ''sys'' ''sunset'')
      \<and> has (is_timestamp plat) (subscript data ''dt'')
      \<and> has is_number (subscript data ''timezone''))"

text \<open>
  The label of a condition keyword: its entry in the table, the keyword itself when it
  has none.
\<close>

definition condition_label :: "json \<Rightarrow> json" where
  "condition_label v =
     (case v of
        JStr keyword \<Rightarrow>
          (case map_of WEATHER_MAP keyword of None \<Rightarrow> JStr keyword | Some zh \<Rightarrow> JStr zh)
      | _ \<Rightarrow> v)"

text \<open>
  A number rounded to one decimal place: a float becomes the float of a multiple of one
  tenth that is at most one twentieth away from it (the multiple next below or next
  above), an integer stays as it is.
\<close>

definition rounded_to_one_decimal :: "json \<Rightarrow> json \<Rightarrow> bool" where
  "rounded_to_one_decimal raw out =
     (case raw of
        JInt i \<Rightarrow> out = JInt i
      | JFloat x \<Rightarrow>
          (\<exists>k \<in> {\<lfloor>x * 10\<rfloor>, \<lfloor>x * 10\<rfloor> + 1}.
             out = JFloat (nearest_double (of_int k / 10))
             \<and> \<bar>of_int k / 10 - x\<bar> \<le> 1 / 20)
      | _ \<Rightarrow> False)"

text \<open>
  A timestamp rendered as \<open>HH:MM:SS\<close> local time: the hour, the minute and the second
  of its local time, two digits each, with colons between them.
\<close>

definition rendered_HMS :: "platform \<Rightarrow> json \<Rightarrow> string \<Rightarrow> bool" where
  "rendered_HMS plat ts out =
     (case ts of
        JInt i \<Rightarrow>
          (case localtime plat i of
             None \<Rightarrow> False
           | Some t \<Rightarrow>
               out = [digit_char (hour t div 10), digit_char (hour t), CHR '':'',
                      digit_char (minute t div 10), digit_char (minute t), CHR '':'',
                      digit_char (second t div 10), digit_char (second t)])
      | _ \<Rightarrow> False)"

subsection \<open>What the specification says of compare_cities\<close>

text \<open>
  The specification in two steps. First the current weather of each city is fetched, one
  city after the other, with a sleep after each; then the rows are made from what was
  fetched, in the order of the input, a city whose fetch gave no data (or no parsed
  record) giving no row.
\<close>

fun fetch_sequentially ::
  "config \<Rightarrow> platform \<Rightarrow> city_info list \<Rightarrow> world \<Rightarrow> (city_info \<times> json result) list \<times> world" where
  "fetch_sequentially cfg plat [] w = ([], w)"
| "fetch_sequentially cfg plat (c # cs) w =
     (case get_current_weather cfg plat (info_city c) (info_country c)
             (print (ComparingCity (info_city c)) w) of
        (r, w1) \<Rightarrow>
          (case fetch_sequentially cfg plat cs (sleep w1) of
             (rs, w2) \<Rightarrow> ((c, r) # rs, w2)))"

fun rows_of_fetched :: "platform \<Rightarrow> (city_info \<times> json result) list \<Rightarrow> row list" where
  "rows_of_fetched plat [] = []"
| "rows_of_fetched plat ((c, r) # rest) =
     (case r of
        Inl e \<Rightarrow> []
      | Inr data \<Rightarrow>
          if truthy data then
            (case parse_weather_data plat data (info_display_name c) of
               Inr (Some p) \<Rightarrow> [row_of p]
             | _ \<Rightarrow> [])
          else [])
     @ rows_of_fetched plat rest"

text \<open>
  Nothing raises on what was fetched: no fetch raised, and \<open>parse_weather_data\<close> raises
  on none of the truthy payloads.
\<close>

fun no_exception :: "platform \<Rightarrow> (city_info \<times> json result) list \<Rightarrow> bool" where
  "no_exception plat [] = True"
| "no_exception plat ((c, r) # rest) =
     ((case r of
         Inl e \<Rightarrow> False
       | Inr data \<Rightarrow>
           if truthy data then
             (case parse_weather_data plat data (info_display_name c) of
                Inl e \<Rightarrow> False
              | Inr p \<Rightarrow> True)
           else True)
      \<and> no_exception plat rest)"

text \<open>
  A run of events keeps the delay between requests when no request follows another
  without a sleep between them; the flag says whether a request has been sent since the
  last sleep, and \<open>pending\<close> is the flag at the end of the run.
\<close>

fun spaced :: "bool \<Rightarrow> event list \<Rightarrow> bool" where
  "spaced b [] = True"
| "spaced b (Sent r # es) = (\<not> b \<and> spaced True es)"
| "spaced b (Slept # es) = spaced False es"
| "spaced b (Printed n # es) = spaced b es"

fun pending :: "bool \<Rightarrow> event list \<Rightarrow> bool" where
  "pending b [] = b"
| "pending b (Sent r # es) = pending True es"
| "pending b (Slept # es) = pending False es"
| "pending b (Printed n # es) = pending b es"

subsection \<open>Worlds to run the model in\<close>

text \<open>
  The defaults of \<open>config.py\<close> with a key set, a world with an empty cache directory
  and no events, and a datetime from its fields.
\<close>

definition example_config :: config where
  "example_config =
     \<lparr>CITY = ''Guilin'', COUNTRY = ''CN'', LAT = 25.2741, LON = 110.2993,
      API_KEY = Some ''0123456789abcdef0123456789abcdef'', USE_CACHE = True,
      CACHE_HOURS = 1, FORECAST_DAYS = 5, LANGUAGE = ''zh_cn''\<rparr>"

definition initial_world :: "(nat \<Rightarrow> datetime) \<Rightarrow> (nat \<Rightarrow> request \<Rightarrow> http_result) \<Rightarrow> world" where
  "initial_world clk net = \<lparr>files = Map.empty, clock = clk, network = net, trace = []\<rparr>"

definition date_time :: "nat \<Rightarrow> nat \<Rightarrow> nat \<Rightarrow> nat \<Rightarrow> nat \<Rightarrow> nat \<Rightarrow> datetime" where
  "date_time y m d h mi s =
     \<lparr>year = y, month = m, day = d, hour = h, minute = mi, second = s, microsecond = 0\<rparr>"

text \<open>A cache directory holding fresh files with the empty object as content.\<close>

definition world_with_empty_objects :: world where
  "world_with_empty_objects =
     (initial_world (\<lambda>n. date_time 2024 1 1 12 30 0)
        (\<lambda>n r. Response 200 (Some (JDict [(''cod'', JInt 200)]))))
     \<lparr>files :=
        [''e363ca4e_current.json'' \<mapsto>
           \<lparr>mtime = date_time 2024 1 1 12 0 0, content = Some (JDict [])\<rparr>,
         ''326a2268_forecast.json'' \<mapsto>
           \<lparr>mtime = date_time 2024 1 1 12 10 0, content = Some (JDict [])\<rparr>]\<rparr>"

text \<open>
  A payload of the current-weather endpoint, after the example of the provider's
  documentation, for a city name, a condition keyword, a temperature and a humidity.
\<close>

definition sample_payload :: "string \<Rightarrow> string \<Rightarrow> real \<Rightarrow> int \<Rightarrow> json" where
  "sample_payload name keyword temp humidity =
     JDict
       [(''coord'', JDict [(''lon'', JFloat 110.2993), (''lat'', JFloat 25.2741)]),
        (''weather'',
           JList [JDict [(''id'', JInt 800), (''main'', JStr keyword),
                         (''description'', JStr ''sky''), (''icon'', JStr ''01d'')]]),
        (''base'', JStr ''stations''),
        (''main'',
           JDict [(''temp'', JFloat temp), (''feels_like'', JFloat (temp - 0.5)),
                  (''temp_min'', JFloat (temp - 1.25)), (''temp_max'', JFloat (temp + 1.25)),
                  (''pressure'', JInt 1012), (''humidity'', JInt humidity)]),
        (''visibility'', JInt 10000),
        (''wind'', JDict [(''speed'', JFloat 3.5), (''deg'', JInt 40)]),
        (''clouds'', JDict [(''all'', JInt 20)]),
        (''dt'', JInt 1704081600),
        (''sys'',
           JDict [(''country'', JStr ''CN''), (''sunrise'', JInt 1704064500),
                  (''sunset'', JInt 1704103200)]),
        (''timezone'', JInt 28800),
        (''id'', JInt 1809498),
        (''name'', JStr name),
        (''cod'', JInt 200)]"

text \<open>Four moments of two days.\<close>

definition noon :: datetime where
  "noon = date_time 2024 1 1 12 0 0"

definition two_pm :: datetime where
  "two_pm = date_time 2024 1 1 14 0 0"

definition before_midnight :: datetime where
  "before_midnight = date_time 2024 1 1 23 50 0"

definition after_midnight :: datetime where
  "after_midnight = date_time 2024 1 2 0 10 0"



text \<open>A world where it stays noon and the provider answers every request alike.\<close>

definition world_at_noon :: world where
  "world_at_noon =
     initial_world (\<lambda>n. noon)
       (\<lambda>n r. Response 200 (Some (sample_payload ''Guilin'' ''Clear'' 22.375 50)))"

text \<open>
  The worlds the first call leaves at noon, and the same worlds two hours later.
\<close>

definition after_current :: world where
  "after_current =
     snd (get_current_weather example_config example_platform None None world_at_noon)"

definition after_forecast :: world where
  "after_forecast =
     snd (get_forecast example_config example_platform None None None world_at_noon)"

definition two_hours_later :: "world \<Rightarrow> world" where
  "two_hours_later w = w\<lparr>clock := \<lambda>n. two_pm\<rparr>"

text \<open>
  A cache directory whose file for Guilin's current weather, written at noon, is not a
  JSON document (a write cut short, say), half an hour later; and a world where the
  provider answers every request with a JSON object that is no weather report.
\<close>

definition world_with_corrupt_cache :: world where
  "world_with_corrupt_cache =
     (initial_world (\<lambda>n. date_time 2024 1 1 12 30 0) (\<lambda>n r. RequestException))
     \<lparr>files :=
        [''e363ca4e_current.json'' \<mapsto> \<lparr>mtime = noon, content = None\<rparr>,
         ''326a2268_forecast.json'' \<mapsto> \<lparr>mtime = noon, content = None\<rparr>]\<rparr>"

definition world_of_other_answers :: world where
  "world_of_other_answers =
     initial_world (\<lambda>n. noon) (\<lambda>n r. Response 200 (Some (JDict [(''cod'', JInt 200)])))"

text \<open>
  Three cities, the second of which the provider does not know, and a provider that
  answers by the \<open>q\<close> parameter of the request.
\<close>

definition three_cities :: "city_info list" where
  "three_cities =
     [[(''city'', Some ''Beijing''), (''display_name'', Some ''Beijing (capital)'')],
      [(''city'', Some ''Atlantis''), (''country'', Some ''GR'')],
      [(''city'', Some ''Shanghai'')]]"

definition beijing_payload :: json where
  "beijing_payload = sample_payload ''Beijing'' ''Clear'' 22.375 50"

definition shanghai_payload :: json where
  "shanghai_payload = sample_payload ''Shanghai'' ''Rain'' 22.375 88"

definition world_of_three_cities :: world where
  "world_of_three_cities =
     initial_world (\<lambda>n. noon)
       (\<lambda>n r. if map_of (params r) ''q'' = Some (PStr ''Beijing,CN'')
              then Response 200 (Some beijing_payload)
              else if map_of (params r) ''q'' = Some (PStr ''Shanghai,CN'')
              then Response 200 (Some shanghai_payload)
              else Response 404 (Some (JDict [(''cod'', JStr ''404''),
                                              (''message'', JStr ''city not found'')])))"

text \<open>The rows of the first and of the third city.\<close>

definition beijing_row :: row where
  "beijing_row =
     \<lparr>r_city = JStr ''Beijing (capital)'',
      r_temp = JFloat (3152519739159347 / 140737488355328),
      r_feels_like = JFloat (3082150994981683 / 140737488355328),
      r_condition = JStr [CHR 0xE6, CHR 0x99, CHR 0xB4, CHR 0xE6, CHR 0x9C, CHR 0x97],
      r_humidity = JInt 50,
      r_wind_speed = JFloat 3.5,
      r_comfort = [CHR 0xE9, CHR 0x9D, CHR 0x9E, CHR 0xE5, CHR 0xB8, CHR 0xB8,
                   CHR 0xE8, CHR 0x88, CHR 0x92, CHR 0xE9, CHR 0x80, CHR 0x82]\<rparr>"

definition shanghai_row :: row where
  "shanghai_row =
     \<lparr>r_city = JStr ''Shanghai'',
      r_temp = JFloat (3152519739159347 / 140737488355328),
      r_feels_like = JFloat (3082150994981683 / 140737488355328),
      r_condition = JStr [CHR 0xE9, CHR 0x99, CHR 0x8D, CHR 0xE9, CHR 0x9B, CHR 0xA8],
      r_humidity = JInt 88,
      r_wind_speed = JFloat 3.5,
      r_comfort = [CHR 0xE8, CHR 0x88, CHR 0x92, CHR 0xE9, CHR 0x80, CHR 0x82,
                   CHR 0xE6, CHR 0xBD, CHR 0xAE, CHR 0xE6, CHR 0xB9, CHR 0xBF]\<rparr>"

text \<open>A world with an empty cache directory where every request gets the same answer.\<close>

definition world_answering :: "http_result \<Rightarrow> world" where
  "world_answering a = initial_world (\<lambda>n. noon) (\<lambda>n r. a)"

(*DEFS-END*)

section \<open>Properties\<close>

subsection \<open>The comfort rating\<close>

lemma temp_score_band: "temp_score t = temp_label (temp_band_of t)"
  by (simp add: temp_score_def temp_band_of_def)

lemma humidity_adj_class: "humidity_adj h = humidity_label (humidity_class_of h)"
  by (simp add: humidity_adj_def humidity_class_of_def)

lemma wind_adj_class: "wind_adj v = wind_label (wind_class_of v)"
  by (simp add: wind_adj_def wind_class_of_def)

lemma temp_label_inj: "temp_label b = temp_label b' \<longleftrightarrow> b = b'"
  by (cases b; cases b'; simp add: label_defs)

lemma humidity_label_inj: "humidity_label c = humidity_label c' \<longleftrightarrow> c = c'"
  by (cases c; cases c'; simp add: label_defs)

lemma comfort_index_on_bands:
  "calculate_comfort_index t h v =
     comfort_rating_spec (temp_band_of t) (humidity_class_of h)"
proof -
  have a: "s_comfortable = temp_label Comfortable" "s_warm = temp_label Warm"
    "s_cool = temp_label Cool" "s_moderate = humidity_label Moderate"
    "s_humid = humidity_label Humid" by simp_all
  show ?thesis
    unfolding calculate_comfort_index_def comfort_rating_spec_def Let_def
      temp_score_band humidity_adj_class
    by (simp only: a temp_label_inj humidity_label_inj set_simps insert_iff empty_iff) auto
qed

text \<open>
  Every wind label ends in U+98CE, whose UTF-8 encoding holds the byte A3; no rating
  holds that byte.
\<close>

lemma wind_label_byte: "CHR 0xA3 \<in> set (wind_label c)"
  by (cases c) (simp_all add: label_defs)

lemma rating_without_byte: "CHR 0xA3 \<notin> set (comfort_rating_spec b c)"
  by (cases b; cases c; simp add: comfort_rating_spec_def label_defs)

lemma rating_without_wind_label: "\<not> sublist (wind_label c) (comfort_rating_spec b c')"
  using wind_label_byte rating_without_byte set_mono_sublist by blast

text \<open>
  C2. For every temperature, humidity and wind speed, \<open>calculate_comfort_index\<close>
  classifies the temperature into the six bands bounded by 0, 10, 18, 26 and 32, the
  humidity into dry (below 30), moderate (30 to 85) and humid (above 85), the wind into
  light (up to 5), breezy (above 5, up to 10) and strong (above 10); its result is the
  combination rule of the specification applied to the temperature band and the humidity
  class, and no wind label occurs in the result.
\<close>

theorem calculate_comfort_index_rule_table:
  "temp_score t = temp_label (temp_band_of t)
   \<and> humidity_adj h = humidity_label (humidity_class_of h)
   \<and> wind_adj v = wind_label (wind_class_of v)
   \<and> calculate_comfort_index t h v =
       comfort_rating_spec (temp_band_of t) (humidity_class_of h)
   \<and> \<not> sublist (wind_label c) (calculate_comfort_index t h v)"
  using comfort_index_on_bands temp_score_band humidity_adj_class wind_adj_class
    rating_without_wind_label by simp

text \<open>
  C5. \<open>calculate_comfort_index\<close> returns U+975E U+5E38 U+8212 U+9002 at (22, 50, 3),
  U+4E25 U+5BD2 U+9002 U+4E2D at (-5, 40, 2) and U+6E29 U+6696 U+6F6E U+6E7F at
  (28, 90, 12); the right-hand sides are the UTF-8 encodings of these strings.
\<close>

theorem calculate_comfort_index_examples:
  "calculate_comfort_index 22 50 3 =
     [CHR 0xE9, CHR 0x9D, CHR 0x9E, CHR 0xE5, CHR 0xB8, CHR 0xB8,
      CHR 0xE8, CHR 0x88, CHR 0x92, CHR 0xE9, CHR 0x80, CHR 0x82]
   \<and> calculate_comfort_index (- 5) 40 2 =
     [CHR 0xE4, CHR 0xB8, CHR 0xA5, CHR 0xE5, CHR 0xAF, CHR 0x92,
      CHR 0xE9, CHR 0x80, CHR 0x82, CHR 0xE4, CHR 0xB8, CHR 0xAD]
   \<and> calculate_comfort_index 28 90 12 =
     [CHR 0xE6, CHR 0xB8, CHR 0xA9, CHR 0xE6, CHR 0x9A, CHR 0x96,
      CHR 0xE6, CHR 0xBD, CHR 0xAE, CHR 0xE6, CHR 0xB9, CHR 0xBF]"
  by (simp add: calculate_comfort_index_def temp_score_def humidity_adj_def wind_adj_def
      label_defs)

subsection \<open>Formatting of dates\<close>

lemma digit_char_eq_iff: "digit_char a = digit_char b \<longleftrightarrow> a mod 10 = b mod 10"
proof -
  have d: "distinct ''0123456789''" by simp
  have "a mod 10 < length ''0123456789''" "b mod 10 < length ''0123456789''" by simp_all
  then show ?thesis
    unfolding digit_char_def using d nth_eq_iff_index_eq by blast
qed

lemma decimal_small: "n < 10 \<Longrightarrow> decimal n = [digit_char n]"
  by (simp add: decimal.simps)

lemma decimal_2: "10 \<le> n \<Longrightarrow> n < 100 \<Longrightarrow> decimal n = [digit_char (n div 10), digit_char n]"
  by (subst decimal.simps) (simp add: decimal_small)

lemma decimal_3: "100 \<le> n \<Longrightarrow> n < 1000 \<Longrightarrow>
  decimal n = [digit_char (n div 100), digit_char (n div 10), digit_char n]"
  by (subst decimal.simps) (simp add: decimal_2 div_mult2_eq[symmetric])

lemma decimal_4: "1000 \<le> n \<Longrightarrow> n < 10000 \<Longrightarrow>
  decimal n = [digit_char (n div 1000), digit_char (n div 100), digit_char (n div 10), digit_char n]"
  by (subst decimal.simps) (simp add: decimal_3 div_mult2_eq[symmetric])

lemma digit_char_zero: "digit_char 0 = CHR ''0''"
  by (simp add: digit_char_def)

lemma digit_char_0: "n < 10 \<Longrightarrow> digit_char (n div 10) = CHR ''0''"
  by (simp add: digit_char_def)

lemma zero_pad_2: "n < 100 \<Longrightarrow> zero_pad 2 n = [digit_char (n div 10), digit_char n]"
  by (cases "n < 10") (simp_all add: zero_pad_def decimal_small decimal_2 digit_char_zero)

lemma replicate_small:
  "replicate 1 c = [c]" "replicate 2 c = [c, c]" "replicate 3 c = [c, c, c]"
  by (simp_all add: numeral_2_eq_2 numeral_3_eq_3)

lemma zero_pad_4: "n < 10000 \<Longrightarrow>
  zero_pad 4 n = [digit_char (n div 1000), digit_char (n div 100), digit_char (n div 10), digit_char n]"
proof -
  assume a: "n < 10000"
  consider "n < 10" | "10 \<le> n \<and> n < 100" | "100 \<le> n \<and> n < 1000" | "1000 \<le> n" by linarith
  then show ?thesis
  proof cases
    case 1 then show ?thesis
      by (simp add: zero_pad_def decimal_small replicate_small digit_char_zero)
  next
    case 2 then show ?thesis
      by (simp add: zero_pad_def decimal_2 replicate_small digit_char_zero)
  next
    case 3 then show ?thesis
      by (simp add: zero_pad_def decimal_3 replicate_small digit_char_zero)
  next
    case 4 then show ?thesis using a by (simp add: zero_pad_def decimal_4)
  qed
qed

lemma mod_100: "(n::nat) mod 100 = 10 * (n div 10 mod 10) + n mod 10"
  using mod_mult2_eq [of n 10 10] by simp

lemma mod_1000: "(n::nat) mod 1000 = 100 * (n div 100 mod 10) + n mod 100"
  using mod_mult2_eq [of n 100 10] by simp

lemma mod_10000: "(n::nat) mod 10000 = 1000 * (n div 1000 mod 10) + n mod 1000"
  using mod_mult2_eq [of n 1000 10] by simp

lemma zero_pad_2_inj:
  assumes "a < 100" "b < 100" "zero_pad 2 a = zero_pad 2 b"
  shows "a = b"
proof -
  from assms have "a div 10 mod 10 = b div 10 mod 10" "a mod 10 = b mod 10"
    by (simp_all add: zero_pad_2 digit_char_eq_iff)
  then have "a mod 100 = b mod 100" by (simp add: mod_100)
  with assms show ?thesis by simp
qed

lemma zero_pad_4_inj:
  assumes "a < 10000" "b < 10000" "zero_pad 4 a = zero_pad 4 b"
  shows "a = b"
proof -
  from assms have "a div 1000 mod 10 = b div 1000 mod 10" "a div 100 mod 10 = b div 100 mod 10"
    "a div 10 mod 10 = b div 10 mod 10" "a mod 10 = b mod 10"
    by (simp_all add: zero_pad_4 digit_char_eq_iff)
  then have "a mod 10000 = b mod 10000" by (simp add: mod_100 mod_1000 mod_10000)
  with assms show ?thesis by simp
qed

lemma length_zero_pad_2: "n < 100 \<Longrightarrow> length (zero_pad 2 n) = 2"
  by (simp add: zero_pad_2)

lemma length_zero_pad_4: "n < 10000 \<Longrightarrow> length (zero_pad 4 n) = 4"
  by (simp add: zero_pad_4)

lemma valid_datetime_bounds:
  "valid_datetime t \<Longrightarrow> year t < 10000 \<and> month t < 100 \<and> day t < 100
     \<and> hour t < 100 \<and> minute t < 100 \<and> second t < 100"
proof -
  assume v: "valid_datetime t"
  then have m: "1 \<le> month t" "month t \<le> 12" by (simp_all add: valid_datetime_def)
  have "\<forall>m\<in>{1..12}. DAYS_IN_MONTH ! m \<le> 31" 
    unfolding DAYS_IN_MONTH_def by (simp add: atLeastAtMost_upt upt_rec numeral_eq_Suc)
  with m have "DAYS_IN_MONTH ! month t \<le> 31" by simp
  with v show ?thesis by (auto simp: valid_datetime_def split: if_splits)
qed

lemma strftime_Ymd_inj:
  assumes "valid_datetime s" "valid_datetime t" "strftime_Ymd s = strftime_Ymd t"
  shows "year s = year t \<and> month s = month t \<and> day s = day t"
proof -
  note bs = valid_datetime_bounds [OF assms(1)] and bt = valid_datetime_bounds [OF assms(2)]
  from assms(3) bs bt have "zero_pad 4 (year s) = zero_pad 4 (year t)"
    "zero_pad 2 (month s) = zero_pad 2 (month t)" "zero_pad 2 (day s) = zero_pad 2 (day t)"
    by (simp_all add: strftime_Ymd_def zero_pad_4 zero_pad_2)
  with bs bt show ?thesis by (simp add: zero_pad_2_inj zero_pad_4_inj)
qed

lemma length_strftime_Ymd: "valid_datetime t \<Longrightarrow> length (strftime_Ymd t) = 8"
  using valid_datetime_bounds [of t] by (simp add: strftime_Ymd_def zero_pad_2 zero_pad_4)

subsection \<open>The cache key\<close>

lemma cache_key_same_day:
  assumes "year s = year t" "month s = month t" "day s = day t"
  shows "cache_key_string s city endpoint = cache_key_string t city endpoint"
  using assms by (simp add: cache_key_string_def strftime_Ymd_def)

lemma cache_key_other_day:
  assumes "valid_datetime s" "valid_datetime t"
    and "cache_key_string s city endpoint = cache_key_string t city endpoint"
  shows "year s = year t \<and> month s = month t \<and> day s = day t"
proof -
  from assms(3) have "strftime_Ymd s = strftime_Ymd t"
    by (simp add: cache_key_string_def)
  with assms(1,2) show ?thesis by (rule strftime_Ymd_inj)
qed

lemma cache_key_other_endpoint:
  assumes "valid_datetime s" "valid_datetime t"
  shows "cache_key_string s city ''current''
           \<noteq> cache_key_string t (city' @ ''_forecast'') ''forecast''"
proof
  assume e: "cache_key_string s city ''current''
               = cache_key_string t (city' @ ''_forecast'') ''forecast''"
  have l: "length (strftime_Ymd s) = length (strftime_Ymd t)"
    using assms by (simp add: length_strftime_Ymd)
  from e have "(city @ ''_current_'') @ strftime_Ymd s
                 = (city' @ ''_forecast_forecast_'') @ strftime_Ymd t"
    by (simp add: cache_key_string_def)
  with l have "city @ ''_current_'' = city' @ ''_forecast_forecast_''"
    using append_eq_append_conv by blast
  then have "city @ ''_current_'' = (city' @ ''_forecast_'') @ ''forecast_''"
    by simp
  moreover have "length ''_current_'' = length ''forecast_''"
    by simp
  ultimately have "''_current_'' = ''forecast_''"
    using append_eq_append_conv by blast
  then show False by simp
qed

subsection \<open>Effects of the primitive operations\<close>

lemma print_simps [simp]:
  "files (print n w) = files w"
  "clock (print n w) = clock w"
  "network (print n w) = network w"
  "trace (print n w) = trace w @ [Printed n]"
  "requests_sent (print n w) = requests_sent w"
  "next_answer (print n w) req = next_answer w req"
  by (simp_all add: print_def requests_sent_def next_answer_def)

lemma sleep_simps [simp]:
  "files (sleep w) = files w"
  "clock (sleep w) = clock w"
  "network (sleep w) = network w"
  "trace (sleep w) = trace w @ [Slept]"
  "requests_sent (sleep w) = requests_sent w"
  by (simp_all add: sleep_def requests_sent_def)

lemma session_get_simps [simp]:
  "fst (session_get req w) = next_answer w req"
  "files (snd (session_get req w)) = files w"
  "clock (snd (session_get req w)) = clock w"
  "network (snd (session_get req w)) = network w"
  "trace (snd (session_get req w)) = trace w @ [Sent req]"
  "requests_sent (snd (session_get req w)) = requests_sent w @ [req]"
  by (simp_all add: session_get_def requests_sent_def)

lemma session_get_eq:
  "session_get req w = (a, w') \<longleftrightarrow> a = next_answer w req \<and> w' = snd (session_get req w)"
  by (auto simp: session_get_def)

lemma save_to_cache_simps [simp]:
  "files (save_to_cache k e d w) = (files w)(cache_file_name k e \<mapsto> \<lparr>mtime = now w, content = Some d\<rparr>)"
  "clock (save_to_cache k e d w) = clock w"
  "network (save_to_cache k e d w) = network w"
  "trace (save_to_cache k e d w) = trace w"
  "requests_sent (save_to_cache k e d w) = requests_sent w"
  by (simp_all add: save_to_cache_def requests_sent_def)

lemma files_update_simps [simp]:
  "trace (w\<lparr>files := fs\<rparr>) = trace w"
  "requests_sent (w\<lparr>files := fs\<rparr>) = requests_sent w"
  "next_answer (w\<lparr>files := fs\<rparr>) req = next_answer w req"
  "print n (w\<lparr>files := fs\<rparr>) = (print n w)\<lparr>files := fs\<rparr>"
  "snd (session_get req (w\<lparr>files := fs\<rparr>)) = (snd (session_get req w))\<lparr>files := fs\<rparr>"
  by (simp_all add: requests_sent_def next_answer_def print_def session_get_def)

subsection \<open>get_weather_by_coordinates\<close>

text \<open>
  C9. \<open>get_weather_by_coordinates\<close> performs no caching: it leaves the cache directory as
  it is, and what it returns and does is the same whatever the cache directory holds (it
  reads none of its files).
\<close>

theorem get_weather_by_coordinates_no_cache:
  "files (snd (get_weather_by_coordinates cfg lat lon w)) = files w
   \<and> get_weather_by_coordinates cfg lat lon (w\<lparr>files := fs\<rparr>)
      = (fst (get_weather_by_coordinates cfg lat lon w),
         (snd (get_weather_by_coordinates cfg lat lon w))\<lparr>files := fs\<rparr>)"
  by (simp add: get_weather_by_coordinates_def Let_def session_get_eq
      split: prod.splits http_result.splits option.splits)

subsection \<open>The cache lookup\<close>

lemma load_from_cache_frame:
  assumes "load_from_cache cfg k e w = (r, w1)"
  shows "files w1 = files w \<and> clock w1 = clock w \<and> network w1 = network w
    \<and> requests_sent w1 = requests_sent w
    \<and> (trace w1 = trace w \<or> trace w1 = trace w @ [Printed (UsingCache k)])
    \<and> next_answer w1 = next_answer w"
  using assms
  by (auto simp: load_from_cache_def fun_eq_iff split: if_splits option.splits)

lemma load_from_cache_hit:
  assumes "USE_CACHE cfg" "files w (cache_file_name k e) = Some f"
    "datetime_sub (now w) (mtime f) < timedelta_hours (CACHE_HOURS cfg)" "content f = Some j"
  shows "load_from_cache cfg k e w = (Inr j, print (UsingCache k) w)"
  using assms by (simp add: load_from_cache_def)


subsection \<open>get_current_weather\<close>

lemma get_current_weather_cases:
  assumes "get_current_weather cfg plat city country w = (r, w')"
  obtains
    (raised) e where "r = Inl e" "files w' = files w" "requests_sent w' = requests_sent w"
  | (hit) "truthy (projr r)" "\<exists>d. r = Inr d" "files w' = files w" "requests_sent w' = requests_sent w"
  | (network) w1 where "files w1 = files w" "requests_sent w1 = requests_sent w"
      "next_answer w1 = next_answer w"
      "(r, w') = fetch_current cfg (str_or city (CITY cfg)) (str_or country (COUNTRY cfg))
         (get_cache_key plat w (str_or city (CITY cfg)) ''current'') w1"
proof (cases "load_from_cache cfg (get_cache_key plat w (str_or city (CITY cfg)) ''current'') ''current'' w")
  case (Pair r0 w1)
  note fr = load_from_cache_frame [OF Pair]
  show ?thesis
  proof (cases r0)
    case (Inl e)
    with Pair assms fr show ?thesis
      by (intro raised [of e]) (auto simp: get_current_weather_def Let_def)
  next
    case (Inr c)
    show ?thesis
    proof (cases "truthy c")
      case True
      with Pair Inr assms fr show ?thesis
        by (intro hit) (auto simp: get_current_weather_def Let_def)
    next
      case False
      with Pair Inr assms have "(r, w') = fetch_current cfg (str_or city (CITY cfg))
         (str_or country (COUNTRY cfg)) (get_cache_key plat w (str_or city (CITY cfg)) ''current'') w1"
        by (simp add: get_current_weather_def Let_def)
      with fr show ?thesis by (intro network [of w1]) auto
    qed
  qed
qed

lemma fetch_current_404:
  assumes "next_answer w1 (current_request cfg tc tco) = Response 404 body"
    "(r, w') = fetch_current cfg tc tco k w1"
  shows "r = Inr JNull \<and> files w' = files w1
    \<and> last (trace w') = Printed (CityNotFound tc tco)
    \<and> requests_sent w' = requests_sent w1 @ [current_request cfg tc tco]"
  using assms by (simp add: fetch_current_def session_get_eq split: prod.splits)

lemma fetch_current_other_status:
  assumes "next_answer w1 (current_request cfg tc tco) = Response s body" "s \<noteq> 200" "s \<noteq> 404"
    "(r, w') = fetch_current cfg tc tco k w1"
  shows "r = Inr JNull \<and> files w' = files w1
    \<and> last (trace w') = Printed (RequestFailed s)
    \<and> requests_sent w' = requests_sent w1 @ [current_request cfg tc tco]"
  using assms by (simp add: fetch_current_def session_get_eq split: prod.splits)

lemma fetch_current_exception:
  assumes "next_answer w1 (current_request cfg tc tco) = RequestException"
    "(r, w') = fetch_current cfg tc tco k w1"
  shows "r = Inr JNull \<and> files w' = files w1
    \<and> last (trace w') = Printed NetworkError
    \<and> requests_sent w' = requests_sent w1 @ [current_request cfg tc tco]"
  using assms by (simp add: fetch_current_def session_get_eq split: prod.splits)

lemma fetch_current_written:
  assumes "(r, w') = fetch_current cfg tc tco k w1" "files w' \<noteq> files w1"
  shows "\<exists>data. next_answer w1 (current_request cfg tc tco) = Response 200 (Some data)"
  using assms
  by (auto simp: fetch_current_def session_get_eq
      split: prod.splits http_result.splits option.splits if_splits)

lemma fetch_current_one_request:
  assumes "(r, w') = fetch_current cfg tc tco k w1"
  shows "requests_sent w' = requests_sent w1 @ [current_request cfg tc tco]"
  using assms
  by (auto simp: fetch_current_def session_get_eq
      split: prod.splits http_result.splits option.splits if_splits)

lemmas run_defs =
  get_current_weather_def fetch_current_def get_forecast_def fetch_forecast_def
  get_weather_by_coordinates_def load_from_cache_def get_cache_key_def cache_key_string_def
  cache_file_name_def strftime_Ymd_def zero_pad_def decimal.simps digit_char_def now_def
  example_platform_def md5_table_def example_config_def initial_world_def date_time_def
  session_get_def next_answer_def print_def sleep_def save_to_cache_def requests_sent_def
  str_or_def int_or_def float_or_def current_request_def forecast_request_def
  coordinates_request_def appid_def base_url_def Let_def
  datetime_sub_def dt_micros_def ymd2ord_def days_before_year_def days_before_month_def
  DAYS_BEFORE_MONTH_def is_leap_def timedelta_hours_def

subsection \<open>get_forecast\<close>

lemma fetch_forecast_one_request:
  assumes "(r, w') = fetch_forecast cfg tc tco days k w1"
  shows "requests_sent w' = requests_sent w1 @ [forecast_request cfg tc tco days]"
  using assms
  by (auto simp: fetch_forecast_def session_get_eq
      split: prod.splits http_result.splits option.splits if_splits)

subsection \<open>Cache hits and misses\<close>


lemma get_current_weather_falsy:
  assumes "USE_CACHE cfg"
    and "files w (cache_file_name (get_cache_key plat w (str_or city (CITY cfg)) ''current'')
           ''current'') = Some f"
    and "datetime_sub (now w) (mtime f) < timedelta_hours (CACHE_HOURS cfg)"
    and "content f = Some j" and "\<not> truthy j"
  shows "requests_sent (snd (get_current_weather cfg plat city country w))
    = requests_sent w @ [current_request cfg (str_or city (CITY cfg)) (str_or country (COUNTRY cfg))]"
  using assms
    fetch_current_one_request [OF prod.collapse,
      of cfg "str_or city (CITY cfg)" "str_or country (COUNTRY cfg)"
        "get_cache_key plat w (str_or city (CITY cfg)) ''current''"
        "print (UsingCache (get_cache_key plat w (str_or city (CITY cfg)) ''current'')) w"]
  by (simp add: get_current_weather_def Let_def load_from_cache_hit)



lemma get_forecast_falsy:
  assumes "USE_CACHE cfg"
    and "files w (cache_file_name
           (get_cache_key plat w (str_or city (CITY cfg) @ ''_forecast'') ''forecast'')
           ''forecast'') = Some f"
    and "datetime_sub (now w) (mtime f) < timedelta_hours (CACHE_HOURS cfg)"
    and "content f = Some j" and "\<not> truthy j"
  shows "requests_sent (snd (get_forecast cfg plat city country days w))
    = requests_sent w @ [forecast_request cfg (str_or city (CITY cfg))
        (str_or country (COUNTRY cfg)) (int_or days (FORECAST_DAYS cfg))]"
  using assms
    fetch_forecast_one_request [OF prod.collapse,
      of cfg "str_or city (CITY cfg)" "str_or country (COUNTRY cfg)"
        "int_or days (FORECAST_DAYS cfg)"
        "get_cache_key plat w (str_or city (CITY cfg) @ ''_forecast'') ''forecast''"
        "print (UsingCache
           (get_cache_key plat w (str_or city (CITY cfg) @ ''_forecast'') ''forecast'')) w"]
  by (simp add: get_forecast_def Let_def load_from_cache_hit)


lemma parse_weather_data_falsy: "\<not> truthy data \<Longrightarrow> parse_weather_data plat data name = Inr None"
  by (simp add: parse_weather_data_def)

text \<open>
  C10. A falsy payload counts as no data. With the cache enabled, a fresh cache file
  whose JSON content is falsy does not end \<open>get_current_weather\<close> or \<open>get_forecast\<close>:
  the call goes on to send its request. \<open>parse_weather_data\<close> returns \<open>None\<close> on a
  falsy input.
\<close>

theorem falsy_payload_is_absent:
  "(USE_CACHE cfg
      \<and> files w (cache_file_name (get_cache_key plat w (str_or city (CITY cfg)) ''current'')
           ''current'') = Some f
      \<and> datetime_sub (now w) (mtime f) < timedelta_hours (CACHE_HOURS cfg)
      \<and> content f = Some j \<and> \<not> truthy j
      \<longrightarrow> requests_sent (snd (get_current_weather cfg plat city country w))
          = requests_sent w @ [current_request cfg (str_or city (CITY cfg))
              (str_or country (COUNTRY cfg))])
   \<and> (USE_CACHE cfg
      \<and> files w (cache_file_name
           (get_cache_key plat w (str_or city (CITY cfg) @ ''_forecast'') ''forecast'')
           ''forecast'') = Some g
      \<and> datetime_sub (now w) (mtime g) < timedelta_hours (CACHE_HOURS cfg)
      \<and> content g = Some j \<and> \<not> truthy j
      \<longrightarrow> requests_sent (snd (get_forecast cfg plat city country days w))
          = requests_sent w @ [forecast_request cfg (str_or city (CITY cfg))
              (str_or country (COUNTRY cfg)) (int_or days (FORECAST_DAYS cfg))])
   \<and> (\<not> truthy data \<longrightarrow> parse_weather_data plat data name = Inr None)"
  using get_current_weather_falsy get_forecast_falsy parse_weather_data_falsy by blast

theorem falsy_payload_is_absent_witness:
  "requests_sent (snd (get_current_weather example_config example_platform None None
       world_with_empty_objects))
     = [current_request example_config ''Guilin'' ''CN'']
   \<and> requests_sent (snd (get_forecast example_config example_platform None None None
       world_with_empty_objects))
     = [forecast_request example_config ''Guilin'' ''CN'' 5]
   \<and> parse_weather_data example_platform (JDict []) None = Inr None"
  using falsy_payload_is_absent
    [where cfg = example_config and plat = example_platform and city = None and country = None
       and days = None and w = world_with_empty_objects and j = "JDict []"
       and f = "\<lparr>mtime = date_time 2024 1 1 12 0 0, content = Some (JDict [])\<rparr>"
       and g = "\<lparr>mtime = date_time 2024 1 1 12 10 0, content = Some (JDict [])\<rparr>"
       and data = "JDict []" and name = None]
  by (simp add: run_defs world_with_empty_objects_def)

subsection \<open>Two calls\<close>

lemma load_from_cache_entry:
  assumes "load_from_cache cfg k e w = (Inr c, w1)" "truthy c"
  shows "\<exists>f. files w1 (cache_file_name k e) = Some f \<and> content f = Some c"
  using assms
  by (auto simp: load_from_cache_def split: if_splits option.splits)

lemma fetch_current_entry:
  assumes "fetch_current cfg tc tco k w = (Inr d, w')" "truthy d"
  shows "\<exists>f. files w' (cache_file_name k ''current'') = Some f \<and> content f = Some d"
  using assms
  by (auto simp: fetch_current_def session_get_eq
      split: prod.splits http_result.splits option.splits if_splits)

lemma fetch_forecast_entry:
  assumes "fetch_forecast cfg tc tco days k w = (Inr d, w')" "truthy d"
  shows "\<exists>f. files w' (cache_file_name k ''forecast'') = Some f \<and> content f = Some d"
  using assms
  by (auto simp: fetch_forecast_def session_get_eq
      split: prod.splits http_result.splits option.splits if_splits)

lemma get_current_weather_entry:
  assumes "get_current_weather cfg plat city country w = (Inr d, w1)" "truthy d"
  shows "\<exists>f. files w1 (cache_file_name (get_cache_key plat w (str_or city (CITY cfg)) ''current'')
                 ''current'') = Some f \<and> content f = Some d"
proof (cases "load_from_cache cfg (get_cache_key plat w (str_or city (CITY cfg)) ''current'')
    ''current'' w")
  case (Pair r0 w0)
  show ?thesis
  proof (cases r0)
    case (Inl e)
    with Pair assms show ?thesis by (simp add: get_current_weather_def Let_def)
  next
    case (Inr c)
    show ?thesis
    proof (cases "truthy c")
      case True
      with Pair Inr assms have "c = d" "w0 = w1"
        by (simp_all add: get_current_weather_def Let_def)
      with Pair Inr True show ?thesis using load_from_cache_entry by blast
    next
      case False
      with Pair Inr assms have "fetch_current cfg (str_or city (CITY cfg))
          (str_or country (COUNTRY cfg))
          (get_cache_key plat w (str_or city (CITY cfg)) ''current'') w0 = (Inr d, w1)"
        by (simp add: get_current_weather_def Let_def)
      then show ?thesis using assms(2) by (rule fetch_current_entry)
    qed
  qed
qed

lemma get_forecast_entry:
  assumes "get_forecast cfg plat city country days w = (Inr d, w1)" "truthy d"
  shows "\<exists>f. files w1 (cache_file_name
                 (get_cache_key plat w (str_or city (CITY cfg) @ ''_forecast'') ''forecast'')
                 ''forecast'') = Some f \<and> content f = Some d"
proof (cases "load_from_cache cfg
    (get_cache_key plat w (str_or city (CITY cfg) @ ''_forecast'') ''forecast'') ''forecast'' w")
  case (Pair r0 w0)
  show ?thesis
  proof (cases r0)
    case (Inl e)
    with Pair assms show ?thesis by (simp add: get_forecast_def Let_def)
  next
    case (Inr c)
    show ?thesis
    proof (cases "truthy c")
      case True
      with Pair Inr assms have "c = d" "w0 = w1"
        by (simp_all add: get_forecast_def Let_def)
      with Pair Inr True show ?thesis using load_from_cache_entry by blast
    next
      case False
      with Pair Inr assms have "fetch_forecast cfg (str_or city (CITY cfg))
          (str_or country (COUNTRY cfg)) (int_or days (FORECAST_DAYS cfg))
          (get_cache_key plat w (str_or city (CITY cfg) @ ''_forecast'') ''forecast'') w0
          = (Inr d, w1)"
        by (simp add: get_forecast_def Let_def)
      then show ?thesis using assms(2) by (rule fetch_forecast_entry)
    qed
  qed
qed

lemma get_cache_key_same_day:
  assumes "year (now w2) = year (now w)" "month (now w2) = month (now w)"
    "day (now w2) = day (now w)"
  shows "get_cache_key plat w2 city endpoint = get_cache_key plat w city endpoint"
proof -
  have "cache_key_string (now w2) city endpoint = cache_key_string (now w) city endpoint"
    using assms by (intro cache_key_same_day)
  then show ?thesis by (simp add: get_cache_key_def)
qed




lemmas moment_defs = noon_def two_pm_def before_midnight_def after_midnight_def

lemma truthy_sample_payload [simp]: "truthy (sample_payload name keyword temp humidity)"
  by (simp add: sample_payload_def)

lemma first_current_call:
  "get_current_weather example_config example_platform None None world_at_noon
     = (Inr (sample_payload ''Guilin'' ''Clear'' 22.375 50), after_current)"
proof -
  have "fst (get_current_weather example_config example_platform None None world_at_noon)
     = Inr (sample_payload ''Guilin'' ''Clear'' 22.375 50)"
    by (simp add: run_defs moment_defs world_at_noon_def)
  then show ?thesis
    unfolding after_current_def by (metis prod.collapse)
qed

lemma first_forecast_call:
  "get_forecast example_config example_platform None None None world_at_noon
     = (Inr (sample_payload ''Guilin'' ''Clear'' 22.375 50), after_forecast)"
proof -
  have "fst (get_forecast example_config example_platform None None None world_at_noon)
     = Inr (sample_payload ''Guilin'' ''Clear'' 22.375 50)"
    by (simp add: run_defs moment_defs world_at_noon_def)
  then show ?thesis
    unfolding after_forecast_def by (metis prod.collapse)
qed

lemma after_current_facts:
  "files after_current ''e363ca4e_current.json''
     = Some \<lparr>mtime = noon,
             content = Some (sample_payload ''Guilin'' ''Clear'' 22.375 50)\<rparr>"
  "now after_current = noon"
  "requests_sent after_current = [current_request example_config ''Guilin'' ''CN'']"
  by (simp_all add: after_current_def run_defs moment_defs world_at_noon_def)

lemma after_forecast_facts:
  "files after_forecast ''326a2268_forecast.json''
     = Some \<lparr>mtime = noon,
             content = Some (sample_payload ''Guilin'' ''Clear'' 22.375 50)\<rparr>"
  "now after_forecast = noon"
  "requests_sent after_forecast = [forecast_request example_config ''Guilin'' ''CN'' 5]"
  by (simp_all add: after_forecast_def run_defs moment_defs world_at_noon_def)

lemma two_hours_later_facts:
  "files (two_hours_later w) = files w"
  "now (two_hours_later w) = two_pm"
  "requests_sent (two_hours_later w) = requests_sent w"
  by (simp_all add: two_hours_later_def now_def requests_sent_def)

lemma example_keys:
  "get_cache_key example_platform after_current ''Guilin'' ''current'' = ''e363ca4e''"
  "get_cache_key example_platform (two_hours_later after_current) ''Guilin'' ''current''
     = ''e363ca4e''"
  "get_cache_key example_platform after_forecast ''Guilin_forecast'' ''forecast''
     = ''326a2268''"
  "get_cache_key example_platform (two_hours_later after_forecast)
     ''Guilin_forecast'' ''forecast'' = ''326a2268''"
  by (simp_all add: get_cache_key_def after_current_facts after_forecast_facts
      two_hours_later_facts cache_key_string_def strftime_Ymd_def zero_pad_def decimal.simps
      digit_char_def date_time_def moment_defs example_platform_def md5_table_def)

lemma example_ages:
  "datetime_sub noon noon
     < timedelta_hours (CACHE_HOURS example_config)"
  "\<not> datetime_sub two_pm noon
     < timedelta_hours (CACHE_HOURS example_config)"
  by (simp_all add: run_defs moment_defs)

lemma example_targets:
  "str_or None (CITY example_config) = ''Guilin''"
  "str_or None (COUNTRY example_config) = ''CN''"
  "int_or None (FORECAST_DAYS example_config) = 5"
  "USE_CACHE example_config"
  by (simp_all add: str_or_def int_or_def example_config_def)







subsection \<open>Exceptions that leave the component\<close>

lemmas parse_defs =
  parse_weather_data_def bind_def item2_def weather_item_def calculate_comfort_index_json_def
  fromtimestamp_micros_def

text \<open>
  C4. Not every failure is reported as \<open>None\<close>: \<open>parse_weather_data\<close> raises
  \<open>KeyError\<close> on a payload without the key \<open>weather\<close>; \<open>get_current_weather\<close> and
  \<open>get_forecast\<close> raise the decoding error of a fresh cache file that is not a JSON
  document; and \<open>compare_cities\<close> raises what \<open>parse_weather_data\<close> raises on the
  payload of a city.
\<close>

theorem exceptions_leave_the_component:
  "parse_weather_data example_platform (JDict [(''name'', JStr ''Guilin'')]) None
     = Inl KeyError
   \<and> fst (get_current_weather example_config example_platform None None
         world_with_corrupt_cache) = Inl JSONDecodeError
   \<and> fst (get_forecast example_config example_platform None None None
         world_with_corrupt_cache) = Inl JSONDecodeError
   \<and> fst (compare_cities example_config example_platform [[(''city'', Some ''Guilin'')]]
         world_of_other_answers) = Inl KeyError"
proof (intro conjI)
  show "parse_weather_data example_platform (JDict [(''name'', JStr ''Guilin'')]) None
     = Inl KeyError"
    by (simp add: parse_defs)
  show "fst (get_current_weather example_config example_platform None None
         world_with_corrupt_cache) = Inl JSONDecodeError"
    by (simp add: run_defs moment_defs world_with_corrupt_cache_def)
  show "fst (get_forecast example_config example_platform None None None
         world_with_corrupt_cache) = Inl JSONDecodeError"
    by (simp add: run_defs moment_defs world_with_corrupt_cache_def)
  show "fst (compare_cities example_config example_platform [[(''city'', Some ''Guilin'')]]
         world_of_other_answers) = Inl KeyError"
    by (simp add: compare_cities_def info_city_def info_country_def info_display_name_def
        run_defs moment_defs world_of_other_answers_def parse_defs)
qed

subsection \<open>parse_weather_data on a well-formed payload\<close>

lemma round_half_even_near: "\<bar>of_int (round_half_even z) - z\<bar> \<le> 1 / 2"
proof -
  have "of_int \<lfloor>z\<rfloor> \<le> z" "z < of_int \<lfloor>z\<rfloor> + 1" by linarith+
  then show ?thesis
    by (auto simp: round_half_even_def Let_def)
qed

lemma round_half_even_cases:
  "round_half_even z = \<lfloor>z\<rfloor> \<or> round_half_even z = \<lfloor>z\<rfloor> + 1"
  by (simp add: round_half_even_def Let_def)

lemma round1_number:
  assumes "is_number raw"
  shows "\<exists>out. round1 raw = Inr out \<and> rounded_to_one_decimal raw out \<and> is_number out"
proof (cases raw)
  case (JFloat x)
  have "\<bar>of_int (round_half_even (x * 10)) - x * 10\<bar> \<le> 1 / 2"
    by (rule round_half_even_near)
  then have "\<bar>of_int (round_half_even (x * 10)) / 10 - x\<bar> \<le> 1 / 20"
    by (simp add: abs_le_iff field_simps)
  moreover have "round_half_even (x * 10) \<in> {\<lfloor>x * 10\<rfloor>, \<lfloor>x * 10\<rfloor> + 1}"
    using round_half_even_cases [of "x * 10"] by blast
  ultimately have "rounded_to_one_decimal raw
      (JFloat (nearest_double (of_int (round_half_even (x * 10)) / 10)))"
    unfolding rounded_to_one_decimal_def JFloat by (simp only: json.case) blast
  with JFloat show ?thesis by simp
qed (use assms in \<open>simp_all add: rounded_to_one_decimal_def\<close>)

lemma hasE:
  assumes "has P r"
  obtains v where "r = Inr v" "P v"
  using assms by (cases r) (simp_all add: has_def)

lemma fromtimestamp_int:
  assumes "is_timestamp plat ts"
  shows "\<exists>t. fromtimestamp plat ts = Inr t \<and> rendered_HMS plat ts (strftime_HMS t)"
proof (cases ts)
  case (JInt i)
  with assms obtain t where t: "localtime plat i = Some t" "valid_datetime t"
    by (auto split: option.splits)
  from t(2) have b: "hour t < 100" "minute t < 100" "second t < 100"
    using valid_datetime_bounds by blast+
  have "fromtimestamp plat ts = Inr (t\<lparr>microsecond := 0\<rparr>)"
    using JInt t by (simp add: fromtimestamp_micros_def)
  moreover have "rendered_HMS plat ts (strftime_HMS (t\<lparr>microsecond := 0\<rparr>))"
    using JInt t b by (simp add: rendered_HMS_def strftime_HMS_def zero_pad_2)
  ultimately show ?thesis by blast
qed (use assms in simp_all)

lemma number_of_number: "is_number v \<Longrightarrow> \<exists>x. number_of v = Inr x"
  by (cases v) simp_all

lemma weather_map_get_string: "is_string v \<Longrightarrow> weather_map_get v = Inr (condition_label v)"
  by (cases v) (simp_all add: condition_label_def split: option.splits)

lemma subscript_Inr:
  "subscript data k = Inr v \<Longrightarrow> \<exists>kvs. data = JDict kvs \<and> map_of kvs k = Some v"
  by (cases data) (auto split: option.splits)

lemma item2_Inr:
  assumes "item2 data k1 k2 = Inr v"
  shows "\<exists>kvs. subscript data k1 = Inr (JDict kvs) \<and> map_of kvs k2 = Some v"
proof -
  from assms obtain x where x: "subscript data k1 = Inr x" "subscript x k2 = Inr v"
    by (auto simp: item2_def bind_def split: sum.splits)
  from subscript_Inr [OF x(2)] x(1) show ?thesis by auto
qed

lemma dict_get_total: "\<exists>v. dict_get (JDict kvs) k d = Inr v"
  by (simp split: option.splits)

lemma truthy_dict: "map_of kvs k = Some v \<Longrightarrow> truthy (JDict kvs)"
  by (cases kvs) simp_all

text \<open>
  C6. On every well-formed payload \<open>parse_weather_data\<close> returns a record (it is a
  function of the payload, the display name, the table and the time zone of the platform,
  and touches nothing else); the condition of the record is the label of the keyword
  \<open>weather[0].main\<close> in the table, the keyword itself when the table has no entry for
  it; each of the four temperatures of the record is that of the payload rounded to one
  decimal place (for a float, the float of the multiple of one tenth nearest to it; an
  integer as it is); sunrise and sunset are rendered as \<open>HH:MM:SS\<close> of the local time.
\<close>

theorem parse_weather_data_well_formed:
  assumes "well_formed_payload plat data"
  shows "\<exists>p. parse_weather_data plat data name = Inr (Some p)
    \<and> p_condition p = condition_label (projr (weather_item data ''main''))
    \<and> rounded_to_one_decimal (projr (item2 data ''main'' ''temp'')) (p_temp p)
    \<and> rounded_to_one_decimal (projr (item2 data ''main'' ''feels_like'')) (p_feels_like p)
    \<and> rounded_to_one_decimal (projr (item2 data ''main'' ''temp_max'')) (p_temp_max p)
    \<and> rounded_to_one_decimal (projr (item2 data ''main'' ''temp_min'')) (p_temp_min p)
    \<and> rendered_HMS plat (projr (item2 data ''sys'' ''sunrise'')) (p_sunrise p)
    \<and> rendered_HMS plat (projr (item2 data ''sys'' ''sunset'')) (p_sunset p)"
proof -
  note wf = assms [unfolded well_formed_payload_def]
  from wf obtain kw where kw: "weather_item data ''main'' = Inr kw" "is_string kw"
    by (blast elim: hasE)
  from wf obtain ds where ds: "weather_item data ''description'' = Inr ds"
    by (blast elim: hasE)
  from wf obtain t1 where t1: "item2 data ''main'' ''temp'' = Inr t1" "is_number t1"
    by (blast elim: hasE)
  from wf obtain t2 where t2: "item2 data ''main'' ''feels_like'' = Inr t2" "is_number t2"
    by (blast elim: hasE)
  from wf obtain t3 where t3: "item2 data ''main'' ''temp_max'' = Inr t3" "is_number t3"
    by (blast elim: hasE)
  from wf obtain t4 where t4: "item2 data ''main'' ''temp_min'' = Inr t4" "is_number t4"
    by (blast elim: hasE)
  from wf obtain hu where hu: "item2 data ''main'' ''humidity'' = Inr hu" "is_number hu"
    by (blast elim: hasE)
  from wf obtain pr where pr: "item2 data ''main'' ''pressure'' = Inr pr"
    by (blast elim: hasE)
  from wf obtain ws where ws: "item2 data ''wind'' ''speed'' = Inr ws" "is_number ws"
    by (blast elim: hasE)
  from wf obtain cl where cl: "item2 data ''clouds'' ''all'' = Inr cl"
    by (blast elim: hasE)
  from wf obtain co where co: "item2 data ''sys'' ''country'' = Inr co"
    by (blast elim: hasE)
  from wf obtain sr where sr: "item2 data ''sys'' ''sunrise'' = Inr sr" "is_timestamp plat sr"
    by (blast elim: hasE)
  from wf obtain ss where ss: "item2 data ''sys'' ''sunset'' = Inr ss" "is_timestamp plat ss"
    by (blast elim: hasE)
  from wf obtain dt where dt: "subscript data ''dt'' = Inr dt" "is_timestamp plat dt"
    by (blast elim: hasE)
  from wf obtain tz where tz: "subscript data ''timezone'' = Inr tz"
    by (blast elim: hasE)
  from subscript_Inr [OF dt(1)] obtain kvs where kvs: "data = JDict kvs" "truthy data"
    using truthy_dict by blast
  from item2_Inr [OF ws(1)] obtain wkvs where wkvs: "subscript data ''wind'' = Inr (JDict wkvs)"
    by blast
  have "\<exists>dn. (case name of
        None \<Rightarrow> dict_get data ''name'' (JStr s_unknown_city)
      | Some n \<Rightarrow> if n \<noteq> [] then Inr (JStr n)
                  else dict_get data ''name'' (JStr s_unknown_city)) = Inr dn"
    using kvs(1) by (cases name) (simp_all split: option.splits)
  then obtain dn where dn: "(case name of
        None \<Rightarrow> dict_get data ''name'' (JStr s_unknown_city)
      | Some n \<Rightarrow> if n \<noteq> [] then Inr (JStr n)
                  else dict_get data ''name'' (JStr s_unknown_city)) = Inr dn"
    by blast
  obtain ac where ac: "dict_get data ''name'' (JStr s_unknown) = Inr ac"
    using dict_get_total kvs(1) by blast
  obtain wd where wd: "dict_get (JDict wkvs) ''deg'' (JStr s_no_data) = Inr wd"
    using dict_get_total by blast
  obtain vi where vi: "dict_get data ''visibility'' (JStr s_no_data) = Inr vi"
    using dict_get_total kvs(1) by blast
  from round1_number [OF t1(2)] obtain o1
    where o1: "round1 t1 = Inr o1" "rounded_to_one_decimal t1 o1" "is_number o1" by blast
  from round1_number [OF t2(2)] obtain o2
    where o2: "round1 t2 = Inr o2" "rounded_to_one_decimal t2 o2" by blast
  from round1_number [OF t3(2)] obtain o3
    where o3: "round1 t3 = Inr o3" "rounded_to_one_decimal t3 o3" by blast
  from round1_number [OF t4(2)] obtain o4
    where o4: "round1 t4 = Inr o4" "rounded_to_one_decimal t4 o4" by blast
  from fromtimestamp_int [OF dt(2)] obtain u0 where u0: "fromtimestamp plat dt = Inr u0"
    by blast
  from fromtimestamp_int [OF sr(2)] obtain u1
    where u1: "fromtimestamp plat sr = Inr u1" "rendered_HMS plat sr (strftime_HMS u1)"
    by blast
  from fromtimestamp_int [OF ss(2)] obtain u2
    where u2: "fromtimestamp plat ss = Inr u2" "rendered_HMS plat ss (strftime_HMS u2)"
    by blast
  from number_of_number [OF o1(3)] obtain x1 where x1: "number_of o1 = Inr x1" by blast
  from number_of_number [OF hu(2)] obtain x2 where x2: "number_of hu = Inr x2" by blast
  from number_of_number [OF ws(2)] obtain x3 where x3: "number_of ws = Inr x3" by blast
  have "parse_weather_data plat data name = Inr (Some
          \<lparr>p_city = dn, p_actual_city = ac, p_country = co,
           p_updated = strftime_Ymd_HMS u0, p_condition = condition_label kw,
           p_description = ds, p_temp = o1, p_feels_like = o2, p_temp_max = o3,
           p_temp_min = o4, p_humidity = hu, p_pressure = pr, p_wind_speed = ws,
           p_wind_deg = wd, p_clouds = cl, p_visibility = vi,
           p_sunrise = strftime_HMS u1, p_sunset = strftime_HMS u2, p_tz_offset = tz,
           p_source = ''OpenWeatherMap'',
           p_comfort = calculate_comfort_index x1 x2 x3\<rparr>)"
    unfolding parse_weather_data_def calculate_comfort_index_json_def
    by (simp only: kvs(2) dn kw(1) weather_map_get_string [OF kw(2)] ac co dt(1) u0 ds
        t1(1) t2(1) t3(1) t4(1) o1(1) o2(1) o3(1) o4(1) hu(1) pr ws(1) wkvs wd cl vi
        sr(1) ss(1) u1(1) u2(1) tz x1 x2 x3 bind_def sum.case if_False not_True_eq_False
        simp_thms)
  then show ?thesis
    using o1(2) o2(2) o3(2) o4(2) u1(2) u2(2)
    by (simp add: kw(1) t1(1) t2(1) t3(1) t4(1) sr(1) ss(1))
qed

lemmas double_defs =
  nearest_double_def binade_def pow2_def exponent_up.simps exponent_down.simps

lemmas parse_run_defs =
  parse_defs double_defs sample_payload_def example_platform_def fixed_offset_localtime_def ord2ymd_def
  DAYS_BEFORE_MONTH_def DAYS_IN_MONTH_def round_half_even_def strftime_Ymd_HMS_def
  strftime_HMS_def zero_pad_def decimal.simps digit_char_def WEATHER_MAP_def
  calculate_comfort_index_def temp_score_def humidity_adj_def wind_adj_def label_defs Let_def

lemma rainy_guilin_parsed:
  "parse_weather_data example_platform (sample_payload ''Guilin'' ''Rain'' 22.375 88) None
     = Inr (Some
         \<lparr>p_city = JStr ''Guilin'', p_actual_city = JStr ''Guilin'',
          p_country = JStr ''CN'', p_updated = ''2024-01-01 12:00:00'',
          p_condition = JStr [CHR 0xE9, CHR 0x99, CHR 0x8D, CHR 0xE9, CHR 0x9B, CHR 0xA8],
          p_description = JStr ''sky'',
          p_temp = JFloat (3152519739159347 / 140737488355328),
          p_feels_like = JFloat (3082150994981683 / 140737488355328),
          p_temp_max = JFloat (3321404725185741 / 140737488355328),
          p_temp_min = JFloat (2969561004297421 / 140737488355328), p_humidity = JInt 88,
          p_pressure = JInt 1012, p_wind_speed = JFloat 3.5,
          p_wind_deg = JInt 40, p_clouds = JInt 20,
          p_visibility = JInt 10000, p_sunrise = ''07:15:00'',
          p_sunset = ''18:00:00'', p_tz_offset = JInt 28800,
          p_source = ''OpenWeatherMap'',
          p_comfort =
            [CHR 0xE8, CHR 0x88, CHR 0x92, CHR 0xE9, CHR 0x80, CHR 0x82,
             CHR 0xE6, CHR 0xBD, CHR 0xAE, CHR 0xE6, CHR 0xB9, CHR 0xBF]\<rparr>)"
  by (simp add: parse_run_defs)

lemma rainy_guilin_well_formed:
  "well_formed_payload example_platform (sample_payload ''Guilin'' ''Rain'' 22.375 88)"
  by (simp add: well_formed_payload_def has_def parse_run_defs valid_datetime_def is_leap_def)

theorem parse_weather_data_well_formed_witness:
  "\<exists>p. parse_weather_data example_platform (sample_payload ''Guilin'' ''Rain'' 22.375 88) None
         = Inr (Some p)
     \<and> p_condition p = JStr [CHR 0xE9, CHR 0x99, CHR 0x8D, CHR 0xE9, CHR 0x9B, CHR 0xA8]
     \<and> p_temp p = JFloat (3152519739159347 / 140737488355328)
     \<and> p_feels_like p = JFloat (3082150994981683 / 140737488355328)
     \<and> p_temp_max p = JFloat (3321404725185741 / 140737488355328)
     \<and> p_temp_min p = JFloat (2969561004297421 / 140737488355328)
     \<and> p_sunrise p = ''07:15:00'' \<and> p_sunset p = ''18:00:00''"
proof -
  from parse_weather_data_well_formed [OF rainy_guilin_well_formed, of None]
  obtain p where p: "parse_weather_data example_platform
      (sample_payload ''Guilin'' ''Rain'' 22.375 88) None = Inr (Some p)"
    by blast
  have "Inr (Some p) = parse_weather_data example_platform
      (sample_payload ''Guilin'' ''Rain'' 22.375 88) None"
    using p by (rule sym)
  also note rainy_guilin_parsed
  finally have "p_condition p = JStr [CHR 0xE9, CHR 0x99, CHR 0x8D, CHR 0xE9, CHR 0x9B, CHR 0xA8]
     \<and> p_temp p = JFloat (3152519739159347 / 140737488355328)
     \<and> p_feels_like p = JFloat (3082150994981683 / 140737488355328)
     \<and> p_temp_max p = JFloat (3321404725185741 / 140737488355328)
     \<and> p_temp_min p = JFloat (2969561004297421 / 140737488355328)
     \<and> p_sunrise p = ''07:15:00'' \<and> p_sunset p = ''18:00:00''"
    by simp
  with p show ?thesis by blast
qed

subsection \<open>The cache key of a query\<close>

lemma cache_key_string_inj:
  assumes "valid_datetime s" "valid_datetime t"
  shows "cache_key_string s city endpoint = cache_key_string t city' endpoint
    \<longleftrightarrow> city = city' \<and> year s = year t \<and> month s = month t \<and> day s = day t"
proof
  assume e: "cache_key_string s city endpoint = cache_key_string t city' endpoint"
  have l: "length (strftime_Ymd s) = length (strftime_Ymd t)"
    using assms by (simp add: length_strftime_Ymd)
  from e have "(city @ ''_'' @ endpoint @ ''_'') @ strftime_Ymd s
                 = (city' @ ''_'' @ endpoint @ ''_'') @ strftime_Ymd t"
    by (simp add: cache_key_string_def)
  with l append_eq_append_conv [of "city @ ''_'' @ endpoint @ ''_''"
      "city' @ ''_'' @ endpoint @ ''_''" "strftime_Ymd s" "strftime_Ymd t"]
  have c: "city @ (''_'' @ endpoint @ ''_'') = city' @ (''_'' @ endpoint @ ''_'')"
    and d: "strftime_Ymd s = strftime_Ymd t"
    by simp_all
  from c have "city = city'" by (simp only: append_same_eq)
  with strftime_Ymd_inj [OF assms d]
  show "city = city' \<and> year s = year t \<and> month s = month t \<and> day s = day t"
    by simp
next
  assume "city = city' \<and> year s = year t \<and> month s = month t \<and> day s = day t"
  then show "cache_key_string s city endpoint = cache_key_string t city' endpoint"
    by (simp add: cache_key_string_def strftime_Ymd_def)
qed

lemma length_get_cache_key: "length (get_cache_key plat w city endpoint) \<le> 8"
  by (simp add: get_cache_key_def)

text \<open>
  C7. The cache key is a short hash of the city, the endpoint kind and the current
  calendar date: it is the first eight characters (at most) of the digest of the key
  string of the city, the endpoint and the date of the clock. Between valid dates, two
  key strings for the same endpoint are equal exactly when the cities are equal and the
  dates are equal, and a key string of the current weather differs from a key string of
  the forecast; so two queries on the same calendar day for the same city and endpoint
  kind get the same key, and queries for different endpoint kinds or on different days
  get keys that are digests of distinct key strings. The file that \<open>get_current_weather\<close>
  (\<open>get_forecast\<close>) leaves for a payload it returns is named by the key of the city (the
  city followed by \<open>_forecast\<close>) and its endpoint.
\<close>

theorem cache_key_deterministic:
  "get_cache_key plat w city endpoint
     = take 8 (md5_hexdigest plat (cache_key_string (now w) city endpoint))
   \<and> length (get_cache_key plat w city endpoint) \<le> 8
   \<and> (valid_datetime s \<and> valid_datetime t
      \<longrightarrow> (cache_key_string s city endpoint = cache_key_string t city' endpoint
           \<longleftrightarrow> city = city' \<and> year s = year t \<and> month s = month t \<and> day s = day t))
   \<and> (valid_datetime s \<and> valid_datetime t
      \<longrightarrow> cache_key_string s city ''current''
            \<noteq> cache_key_string t (city' @ ''_forecast'') ''forecast'')
   \<and> (year (now w) = year (now w') \<and> month (now w) = month (now w') \<and> day (now w) = day (now w')
      \<longrightarrow> get_cache_key plat w city endpoint = get_cache_key plat w' city endpoint)
   \<and> (get_current_weather cfg plat c co w = (Inr d, w1) \<and> truthy d
      \<longrightarrow> (\<exists>f. files w1 (cache_file_name
                  (take 8 (md5_hexdigest plat
                     (cache_key_string (now w) (str_or c (CITY cfg)) ''current'')))
                  ''current'') = Some f
             \<and> content f = Some d))
   \<and> (get_forecast cfg plat c co days w = (Inr e, w2) \<and> truthy e
      \<longrightarrow> (\<exists>f. files w2 (cache_file_name
                  (take 8 (md5_hexdigest plat
                     (cache_key_string (now w) (str_or c (CITY cfg) @ ''_forecast'')
                        ''forecast'')))
                  ''forecast'') = Some f
             \<and> content f = Some e))"
proof (intro conjI impI)
  show "get_cache_key plat w city endpoint
     = take 8 (md5_hexdigest plat (cache_key_string (now w) city endpoint))"
    by (simp add: get_cache_key_def)
  show "length (get_cache_key plat w city endpoint) \<le> 8"
    by (rule length_get_cache_key)
next
  assume "valid_datetime s \<and> valid_datetime t"
  then show "cache_key_string s city endpoint = cache_key_string t city' endpoint
      \<longleftrightarrow> city = city' \<and> year s = year t \<and> month s = month t \<and> day s = day t"
    using cache_key_string_inj by blast
next
  assume "valid_datetime s \<and> valid_datetime t"
  then show "cache_key_string s city ''current''
               \<noteq> cache_key_string t (city' @ ''_forecast'') ''forecast''"
    using cache_key_other_endpoint by blast
next
  assume "year (now w) = year (now w') \<and> month (now w) = month (now w')
            \<and> day (now w) = day (now w')"
  then show "get_cache_key plat w city endpoint = get_cache_key plat w' city endpoint"
    using get_cache_key_same_day [of w w' plat city endpoint] by simp
next
  assume "get_current_weather cfg plat c co w = (Inr d, w1) \<and> truthy d"
  then show "\<exists>f. files w1 (cache_file_name
                  (take 8 (md5_hexdigest plat
                     (cache_key_string (now w) (str_or c (CITY cfg)) ''current'')))
                  ''current'') = Some f
             \<and> content f = Some d"
    using get_current_weather_entry [of cfg plat c co w d w1]
    by (simp add: get_cache_key_def)
next
  assume "get_forecast cfg plat c co days w = (Inr e, w2) \<and> truthy e"
  then show "\<exists>f. files w2 (cache_file_name
                  (take 8 (md5_hexdigest plat
                     (cache_key_string (now w) (str_or c (CITY cfg) @ ''_forecast'')
                        ''forecast'')))
                  ''forecast'') = Some f
             \<and> content f = Some e"
    using get_forecast_entry [of cfg plat c co days w e w2]
    by (simp add: get_cache_key_def)
qed

lemmas calendar_defs =
  valid_datetime_def DAYS_IN_MONTH_def DAYS_BEFORE_MONTH_def is_leap_def date_time_def

lemma example_moments_valid:
  "valid_datetime noon" "valid_datetime two_pm" "valid_datetime after_midnight"
  by (simp_all add: moment_defs calendar_defs)

lemma example_key_strings:
  "take 8 (md5_hexdigest example_platform (cache_key_string noon ''Guilin'' ''current''))
     = ''e363ca4e''"
  "take 8 (md5_hexdigest example_platform
     (cache_key_string noon (''Guilin'' @ ''_forecast'') ''forecast'')) = ''326a2268''"
  by (simp_all add: cache_key_string_def strftime_Ymd_def zero_pad_def decimal.simps
      digit_char_def date_time_def moment_defs example_platform_def md5_table_def)

theorem cache_key_deterministic_witness:
  "get_cache_key example_platform world_at_noon ''Guilin'' ''current'' = ''e363ca4e''
   \<and> length (get_cache_key example_platform world_at_noon ''Guilin'' ''current'') \<le> 8
   \<and> cache_key_string noon ''Guilin'' ''current''
     \<noteq> cache_key_string after_midnight ''Guilin'' ''current''
   \<and> cache_key_string noon ''Guilin'' ''current''
     \<noteq> cache_key_string after_midnight (''Guilin'' @ ''_forecast'') ''forecast''
   \<and> get_cache_key example_platform world_at_noon ''Guilin'' ''current''
     = get_cache_key example_platform (two_hours_later world_at_noon) ''Guilin'' ''current''
   \<and> (\<exists>f. files after_current (cache_file_name ''e363ca4e'' ''current'') = Some f
          \<and> content f = Some (sample_payload ''Guilin'' ''Clear'' 22.375 50))
   \<and> (\<exists>f. files after_forecast (cache_file_name ''326a2268'' ''forecast'') = Some f
          \<and> content f = Some (sample_payload ''Guilin'' ''Clear'' 22.375 50))"
proof -
  let ?P = "sample_payload ''Guilin'' ''Clear'' 22.375 50"
  note T = cache_key_deterministic
    [where plat = example_platform and w = world_at_noon
       and w' = "two_hours_later world_at_noon" and city = "''Guilin''"
       and city' = "''Guilin''" and endpoint = "''current''" and s = noon
       and t = after_midnight and cfg = example_config and c = None and co = None
       and days = None and d = ?P and e = ?P and ?w1.0 = after_current
       and ?w2.0 = after_forecast]
  note T1 = T [THEN conjunct1]
    and T2 = T [THEN conjunct2, THEN conjunct1]
    and T3 = T [THEN conjunct2, THEN conjunct2, THEN conjunct1]
    and T4 = T [THEN conjunct2, THEN conjunct2, THEN conjunct2, THEN conjunct1]
    and T5 = T [THEN conjunct2, THEN conjunct2, THEN conjunct2, THEN conjunct2,
      THEN conjunct1]
    and T6 = T [THEN conjunct2, THEN conjunct2, THEN conjunct2, THEN conjunct2,
      THEN conjunct2, THEN conjunct1]
    and T7 = T [THEN conjunct2, THEN conjunct2, THEN conjunct2, THEN conjunct2,
      THEN conjunct2, THEN conjunct2]
  have n: "now world_at_noon = noon" "now (two_hours_later world_at_noon) = two_pm"
    by (simp_all add: now_def world_at_noon_def initial_world_def two_hours_later_def)
  have same_day: "year noon = year two_pm" "month noon = month two_pm" "day noon = day two_pm"
    by (simp_all add: moment_defs date_time_def)
  have other_day: "day noon \<noteq> day after_midnight"
    by (simp add: moment_defs date_time_def)
  have v: "valid_datetime noon \<and> valid_datetime after_midnight"
    by (simp add: example_moments_valid)
  have k: "get_cache_key example_platform world_at_noon ''Guilin'' ''current'' = ''e363ca4e''"
    using T1 example_key_strings(1) by (simp only: n(1))
  have "cache_key_string noon ''Guilin'' ''current''
      \<noteq> cache_key_string after_midnight ''Guilin'' ''current''"
    using T3 [rule_format, OF v] other_day by blast
  moreover have "cache_key_string noon ''Guilin'' ''current''
      \<noteq> cache_key_string after_midnight (''Guilin'' @ ''_forecast'') ''forecast''"
    using T4 [rule_format, OF v] .
  moreover have "get_cache_key example_platform world_at_noon ''Guilin'' ''current''
      = get_cache_key example_platform (two_hours_later world_at_noon) ''Guilin'' ''current''"
    by (rule T5 [rule_format]) (simp only: n same_day simp_thms)
  moreover have "\<exists>f. files after_current (cache_file_name ''e363ca4e'' ''current'') = Some f
      \<and> content f = Some ?P"
  proof -
    have "get_current_weather example_config example_platform None None world_at_noon
        = (Inr ?P, after_current) \<and> truthy ?P"
      using first_current_call by simp
    from T6 [rule_format, OF this] show ?thesis
      by (simp only: n(1) example_targets(1) example_key_strings(1))
  qed
  moreover have "\<exists>f. files after_forecast (cache_file_name ''326a2268'' ''forecast'') = Some f
      \<and> content f = Some ?P"
  proof -
    have "get_forecast example_config example_platform None None None world_at_noon
        = (Inr ?P, after_forecast) \<and> truthy ?P"
      using first_forecast_call by simp
    from T7 [rule_format, OF this] show ?thesis
      by (simp only: n(1) example_targets(1) example_key_strings(2))
  qed
  ultimately show ?thesis using k T2 by blast
qed

subsection \<open>The failures of get_current_weather\<close>

lemma load_from_cache_nothing:
  assumes "cache_gives_nothing cfg k e w"
  shows "\<exists>c w1. load_from_cache cfg k e w = (Inr c, w1) \<and> \<not> truthy c"
  using assms
  by (auto simp: cache_gives_nothing_def load_from_cache_def split: option.splits)

lemma load_from_cache_something:
  assumes "\<not> cache_gives_nothing cfg k e w"
  shows "(\<exists>x w1. load_from_cache cfg k e w = (Inl x, w1))
    \<or> (\<exists>c w1. load_from_cache cfg k e w = (Inr c, w1) \<and> truthy c)"
  using assms
  by (auto simp: cache_gives_nothing_def load_from_cache_def split: option.splits)

lemma get_current_weather_miss:
  assumes "cache_gives_nothing cfg
      (get_cache_key plat w (str_or city (CITY cfg)) ''current'') ''current'' w"
  obtains w1 where "files w1 = files w" "requests_sent w1 = requests_sent w"
    "next_answer w1 = next_answer w"
    "get_current_weather cfg plat city country w
       = fetch_current cfg (str_or city (CITY cfg)) (str_or country (COUNTRY cfg))
           (get_cache_key plat w (str_or city (CITY cfg)) ''current'') w1"
proof -
  from load_from_cache_nothing [OF assms] obtain c w1
    where l: "load_from_cache cfg (get_cache_key plat w (str_or city (CITY cfg)) ''current'')
      ''current'' w = (Inr c, w1)" "\<not> truthy c"
    by blast
  note fr = load_from_cache_frame [OF l(1)]
  have "get_current_weather cfg plat city country w
       = fetch_current cfg (str_or city (CITY cfg)) (str_or country (COUNTRY cfg))
           (get_cache_key plat w (str_or city (CITY cfg)) ''current'') w1"
    using l by (simp add: get_current_weather_def Let_def)
  with fr that [of w1] show thesis by blast
qed

lemma get_current_weather_no_miss:
  assumes "\<not> cache_gives_nothing cfg
      (get_cache_key plat w (str_or city (CITY cfg)) ''current'') ''current'' w"
    and "get_current_weather cfg plat city country w = (r, w')"
  shows "requests_sent w' = requests_sent w \<and> files w' = files w"
proof -
  let ?k = "get_cache_key plat w (str_or city (CITY cfg)) ''current''"
  from load_from_cache_something [OF assms(1)]
  consider x w1 where "load_from_cache cfg ?k ''current'' w = (Inl x, w1)"
    | c w1 where "load_from_cache cfg ?k ''current'' w = (Inr c, w1)" "truthy c"
    by blast
  then show ?thesis
  proof cases
    case 1
    with assms(2) load_from_cache_frame [OF 1] show ?thesis
      by (simp add: get_current_weather_def Let_def)
  next
    case 2
    with assms(2) load_from_cache_frame [OF 2(1)] show ?thesis
      by (simp add: get_current_weather_def Let_def)
  qed
qed

text \<open>
  C3. When the cache gives \<open>get_current_weather\<close> nothing to return, the call sends its
  request, one request, and then: on a response with status 404 it prints the
  city-not-found line, returns \<open>None\<close> and leaves the cache directory as it is; on a
  response with any other status but 200 it prints the request-failed line with the
  status, and on an exception of the request it prints the network-error line, returning
  \<open>None\<close> and leaving the cache directory as it is in both cases. Whatever the cache
  gives, the cache directory changes only when the request was sent and its answer is a
  response with status 200; and when the cache gives something, no request is sent and
  the cache directory stays as it is.
\<close>

theorem get_current_weather_failures:
  assumes "get_current_weather cfg plat city country w = (r, w')"
  shows
    "(cache_gives_nothing cfg (get_cache_key plat w (str_or city (CITY cfg)) ''current'')
         ''current'' w
      \<longrightarrow> requests_sent w' = requests_sent w @ [current_request cfg (str_or city (CITY cfg))
                 (str_or country (COUNTRY cfg))]
        \<and> (\<forall>body. next_answer w (current_request cfg (str_or city (CITY cfg))
                 (str_or country (COUNTRY cfg))) = Response 404 body
            \<longrightarrow> r = Inr JNull \<and> files w' = files w
              \<and> last (trace w') = Printed (CityNotFound (str_or city (CITY cfg))
                   (str_or country (COUNTRY cfg))))
        \<and> (\<forall>s body. next_answer w (current_request cfg (str_or city (CITY cfg))
                 (str_or country (COUNTRY cfg))) = Response s body \<and> s \<noteq> 200 \<and> s \<noteq> 404
            \<longrightarrow> r = Inr JNull \<and> files w' = files w
              \<and> last (trace w') = Printed (RequestFailed s))
        \<and> (next_answer w (current_request cfg (str_or city (CITY cfg))
                 (str_or country (COUNTRY cfg))) = RequestException
            \<longrightarrow> r = Inr JNull \<and> files w' = files w
              \<and> last (trace w') = Printed NetworkError))
     \<and> (files w' \<noteq> files w
        \<longrightarrow> requests_sent w' = requests_sent w @ [current_request cfg (str_or city (CITY cfg))
                 (str_or country (COUNTRY cfg))]
          \<and> (\<exists>data. next_answer w (current_request cfg (str_or city (CITY cfg))
                 (str_or country (COUNTRY cfg))) = Response 200 (Some data)))
     \<and> (\<not> cache_gives_nothing cfg (get_cache_key plat w (str_or city (CITY cfg)) ''current'')
           ''current'' w
        \<longrightarrow> requests_sent w' = requests_sent w \<and> files w' = files w)"
proof (intro conjI impI)
  assume "cache_gives_nothing cfg (get_cache_key plat w (str_or city (CITY cfg)) ''current'')
    ''current'' w"
  then obtain w1 where w1: "files w1 = files w" "requests_sent w1 = requests_sent w"
    "next_answer w1 = next_answer w"
    "get_current_weather cfg plat city country w
       = fetch_current cfg (str_or city (CITY cfg)) (str_or country (COUNTRY cfg))
           (get_cache_key plat w (str_or city (CITY cfg)) ''current'') w1"
    by (rule get_current_weather_miss)
  from w1(4) assms have f: "(r, w') = fetch_current cfg (str_or city (CITY cfg))
      (str_or country (COUNTRY cfg))
      (get_cache_key plat w (str_or city (CITY cfg)) ''current'') w1"
    by simp
  show "requests_sent w' = requests_sent w @ [current_request cfg (str_or city (CITY cfg))
      (str_or country (COUNTRY cfg))]"
    using fetch_current_one_request [OF f] w1(2) by simp
  show "\<forall>body. next_answer w (current_request cfg (str_or city (CITY cfg))
                 (str_or country (COUNTRY cfg))) = Response 404 body
            \<longrightarrow> r = Inr JNull \<and> files w' = files w
              \<and> last (trace w') = Printed (CityNotFound (str_or city (CITY cfg))
                   (str_or country (COUNTRY cfg)))"
    using fetch_current_404 [OF _ f] w1(1,3) by simp
  show "\<forall>s body. next_answer w (current_request cfg (str_or city (CITY cfg))
                 (str_or country (COUNTRY cfg))) = Response s body \<and> s \<noteq> 200 \<and> s \<noteq> 404
            \<longrightarrow> r = Inr JNull \<and> files w' = files w
              \<and> last (trace w') = Printed (RequestFailed s)"
    using fetch_current_other_status [OF _ _ _ f] w1(1,3) by simp
  show "r = Inr JNull" "files w' = files w" "last (trace w') = Printed NetworkError"
    if "next_answer w (current_request cfg (str_or city (CITY cfg))
                 (str_or country (COUNTRY cfg))) = RequestException"
    using fetch_current_exception [OF _ f] w1(1,3) that by simp_all
next
  assume ch: "files w' \<noteq> files w"
  from assms show "requests_sent w' = requests_sent w @ [current_request cfg
      (str_or city (CITY cfg)) (str_or country (COUNTRY cfg))]"
  proof (cases rule: get_current_weather_cases)
    case (network w1)
    with fetch_current_one_request [OF network(4)] show ?thesis by simp
  qed (use ch in simp_all)
  from assms show "\<exists>data. next_answer w (current_request cfg (str_or city (CITY cfg))
                 (str_or country (COUNTRY cfg))) = Response 200 (Some data)"
  proof (cases rule: get_current_weather_cases)
    case (network w1)
    with fetch_current_written [OF network(4)] ch show ?thesis by simp
  qed (use ch in simp_all)
next
  assume "\<not> cache_gives_nothing cfg (get_cache_key plat w (str_or city (CITY cfg))
    ''current'') ''current'' w"
  from get_current_weather_no_miss [OF this assms]
  show "requests_sent w' = requests_sent w" "files w' = files w" by simp_all
qed

lemma world_answering_facts:
  "files (world_answering a) = Map.empty"
  "requests_sent (world_answering a) = []"
  "next_answer (world_answering a) req = a"
  "cache_gives_nothing cfg k e (world_answering a)"
  by (simp_all add: world_answering_def initial_world_def requests_sent_def next_answer_def
      cache_gives_nothing_def)

lemma after_current_gives:
  "\<not> cache_gives_nothing example_config
      (get_cache_key example_platform after_current (str_or None (CITY example_config))
         ''current'') ''current'' after_current"
  by (simp add: cache_gives_nothing_def example_targets example_keys after_current_facts
      cache_file_name_def example_ages)

theorem get_current_weather_failures_witness:
  "fst (get_current_weather example_config example_platform (Some ''Atlantis'') None
         (world_answering (Response 404 None))) = Inr JNull
   \<and> files (snd (get_current_weather example_config example_platform (Some ''Atlantis'') None
         (world_answering (Response 404 None)))) = Map.empty
   \<and> last (trace (snd (get_current_weather example_config example_platform
         (Some ''Atlantis'') None (world_answering (Response 404 None)))))
     = Printed (CityNotFound ''Atlantis'' ''CN'')
   \<and> requests_sent (snd (get_current_weather example_config example_platform
         (Some ''Atlantis'') None (world_answering (Response 404 None))))
     = [current_request example_config ''Atlantis'' ''CN'']
   \<and> fst (get_current_weather example_config example_platform (Some ''Atlantis'') None
         (world_answering (Response 503 None))) = Inr JNull
   \<and> last (trace (snd (get_current_weather example_config example_platform
         (Some ''Atlantis'') None (world_answering (Response 503 None)))))
     = Printed (RequestFailed 503)
   \<and> fst (get_current_weather example_config example_platform (Some ''Atlantis'') None
         (world_answering RequestException)) = Inr JNull
   \<and> last (trace (snd (get_current_weather example_config example_platform
         (Some ''Atlantis'') None (world_answering RequestException))))
     = Printed NetworkError
   \<and> requests_sent (snd (get_current_weather example_config example_platform None None
         after_current)) = requests_sent after_current
   \<and> files (snd (get_current_weather example_config example_platform None None
         after_current)) = files after_current"
proof -
  have t: "str_or (Some ''Atlantis'') (CITY example_config) = ''Atlantis''"
    "str_or None (COUNTRY example_config) = ''CN''"
    by (simp_all add: str_or_def example_config_def)
  note A = get_current_weather_failures
    [OF prod.collapse [symmetric], where cfg = example_config and plat = example_platform
       and city = "Some ''Atlantis''" and country = None
       and w = "world_answering (Response 404 None)", THEN conjunct1, rule_format,
     OF world_answering_facts(4)]
  note B = get_current_weather_failures
    [OF prod.collapse [symmetric], where cfg = example_config and plat = example_platform
       and city = "Some ''Atlantis''" and country = None
       and w = "world_answering (Response 503 None)", THEN conjunct1, rule_format,
     OF world_answering_facts(4)]
  note C = get_current_weather_failures
    [OF prod.collapse [symmetric], where cfg = example_config and plat = example_platform
       and city = "Some ''Atlantis''" and country = None
       and w = "world_answering RequestException", THEN conjunct1, rule_format,
     OF world_answering_facts(4)]
  note D = get_current_weather_failures
    [OF prod.collapse [symmetric], where cfg = example_config and plat = example_platform
       and city = None and country = None and w = after_current,
     THEN conjunct2, THEN conjunct2, rule_format, OF after_current_gives]
  from A have "requests_sent (snd (get_current_weather example_config example_platform
         (Some ''Atlantis'') None (world_answering (Response 404 None))))
     = [current_request example_config ''Atlantis'' ''CN'']"
    by (simp add: t world_answering_facts)
  moreover from A have "fst (get_current_weather example_config example_platform
         (Some ''Atlantis'') None (world_answering (Response 404 None))) = Inr JNull
     \<and> files (snd (get_current_weather example_config example_platform (Some ''Atlantis'')
         None (world_answering (Response 404 None)))) = Map.empty
     \<and> last (trace (snd (get_current_weather example_config example_platform
         (Some ''Atlantis'') None (world_answering (Response 404 None)))))
       = Printed (CityNotFound ''Atlantis'' ''CN'')"
    by (simp add: t world_answering_facts)
  moreover from B have "fst (get_current_weather example_config example_platform
         (Some ''Atlantis'') None (world_answering (Response 503 None))) = Inr JNull
     \<and> last (trace (snd (get_current_weather example_config example_platform
         (Some ''Atlantis'') None (world_answering (Response 503 None)))))
       = Printed (RequestFailed 503)"
    by (simp add: t world_answering_facts)
  moreover from C have "fst (get_current_weather example_config example_platform
         (Some ''Atlantis'') None (world_answering RequestException)) = Inr JNull
     \<and> last (trace (snd (get_current_weather example_config example_platform
         (Some ''Atlantis'') None (world_answering RequestException))))
       = Printed NetworkError"
    by (simp add: t world_answering_facts)
  moreover note D
  ultimately show ?thesis by blast
qed

end
